theory Spec2Isabelle
  imports Main "HOL-Library.Char_ord" "HOL-Library.List_Lexorder"
begin

section \<open>Data model (models/invitation.go, models/billing.go, the User model)\<close>

text \<open>
  A \<open>uuid.UUID\<close> is a number, \<open>uuid.Nil\<close> is 0.  A \<open>time.Time\<close> is a number of seconds.
  \<open>gorm.DeletedAt\<close> is an optional time: \<open>None\<close> is a live row, \<open>Some t\<close> a soft-deleted one.
  \<open>Role\<close> and \<open>InvitationStatus\<close> are string types in the source and stay strings here, so
  a row can hold any text, as a varchar column can.  The bookkeeping columns CreatedAt and
  UpdatedAt, and the preloaded relationship fields, are left out.
\<close>

type_synonym uuid = nat
type_synonym time = int
type_synonym Role = string
type_synonym InvitationStatus = string

definition uuid_Nil :: uuid where "uuid_Nil = 0"

definition RoleOwner :: Role where "RoleOwner = ''owner''"
definition RoleAdmin :: Role where "RoleAdmin = ''admin''"
definition RoleMember :: Role where "RoleMember = ''member''"

definition StatusPending :: InvitationStatus where "StatusPending = ''pending''"
definition StatusAccepted :: InvitationStatus where "StatusAccepted = ''accepted''"
definition StatusDeclined :: InvitationStatus where "StatusDeclined = ''declined''"
definition StatusExpired :: InvitationStatus where "StatusExpired = ''expired''"

record User =
  usr_ID :: uuid
  usr_Email :: string
  usr_DeletedAt :: "time option"
  usr_StripeCustomerID :: "string option"

record Plan =
  plan_ID :: string
  plan_StripePriceID :: string
  plan_StripePriceIDYearly :: "string option"
  plan_DeletedAt :: "time option"

record Subscription =
  sub_ID :: uuid
  sub_UserID :: uuid
  sub_PlanID :: string
  sub_StripeSubscriptionID :: string
  sub_Status :: string
  sub_CurrentPeriodStart :: time
  sub_CurrentPeriodEnd :: time
  sub_CancelAtPeriodEnd :: bool

record Invitation =
  inv_ID :: uuid
  inv_DeletedAt :: "time option"
  inv_Email :: string
  inv_TeamID :: uuid
  inv_InviterID :: uuid
  inv_Role :: Role
  inv_Token :: string
  inv_Status :: InvitationStatus
  inv_ExpiresAt :: time

record Membership =
  mem_ID :: uuid
  mem_DeletedAt :: "time option"
  mem_UserID :: uuid
  mem_TeamID :: uuid
  mem_Role :: Role

text \<open>
  The storage: one list of rows per table, and \<open>stmts\<close>, the number of SQL statements
  issued against the storage so far (reads and writes alike).
\<close>

record DB =
  users :: "User list"
  plans :: "Plan list"
  subscriptions :: "Subscription list"
  invitations :: "Invitation list"
  memberships :: "Membership list"
  stmts :: nat

text \<open>
  Go's \<open>error\<close> values: \<open>gorm.ErrRecordNotFound\<close>, \<open>errors.New msg\<close>, the driver's
  unique-index violation, and \<open>echo.NewHTTPError code msg\<close>.
\<close>

datatype error =
    ErrRecordNotFound
  | ErrorsNew string
  | ErrDuplicatedKey
  | HTTPError nat string

section \<open>The gorm statements the code issues\<close>

text \<open>
  A statement fails only for what the tables decide: no row matches, or a unique index
  is violated.  Failures of the connection or the driver are not modelled; the branches
  of the source that answer them are written in the handlers below and are never taken.
\<close>

definition tick :: "DB \<Rightarrow> DB" where
  "tick db = db\<lparr>stmts := Suc (stmts db)\<rparr>"

text \<open>
  \<open>First\<close>: the rows that satisfy the condition, ORDER BY primary key, LIMIT 1.
\<close>

definition First :: "('r \<Rightarrow> 'k::linorder) \<Rightarrow> ('r \<Rightarrow> bool) \<Rightarrow> 'r list \<Rightarrow> 'r option" where
  "First pk cond rows =
     (case filter cond rows of
        [] \<Rightarrow> None
      | r # rs \<Rightarrow> Some (fold (\<lambda>x best. if pk x < pk best then x else best) rs r))"

text \<open>
  \<open>UPDATE ... WHERE cond\<close>: the rows affected and the new table.
\<close>

definition UpdateWhere :: "('r \<Rightarrow> bool) \<Rightarrow> ('r \<Rightarrow> 'r) \<Rightarrow> 'r list \<Rightarrow> nat \<times> 'r list" where
  "UpdateWhere cond f rows =
     (length (filter cond rows), map (\<lambda>r. if cond r then f r else r) rows)"

text \<open>
  A transaction that returns an error is rolled back: the tables are those of the
  state it started from; the statements were issued all the same.
\<close>

definition rollback :: "DB \<Rightarrow> DB \<Rightarrow> DB" where
  "rollback start cur = start\<lparr>stmts := stmts cur\<rparr>"

definition zero_Invitation :: Invitation where
  "zero_Invitation = \<lparr>inv_ID = uuid_Nil, inv_DeletedAt = None, inv_Email = [], inv_TeamID = uuid_Nil,
     inv_InviterID = uuid_Nil, inv_Role = [], inv_Token = [], inv_Status = [], inv_ExpiresAt = 0\<rparr>"

definition live_inv :: "Invitation \<Rightarrow> bool" where
  "live_inv i \<longleftrightarrow> inv_DeletedAt i = None"

definition live_mem :: "Membership \<Rightarrow> bool" where
  "live_mem m \<longleftrightarrow> mem_DeletedAt m = None"

definition live_usr :: "User \<Rightarrow> bool" where
  "live_usr u \<longleftrightarrow> usr_DeletedAt u = None"

section \<open>models: Membership\<close>

text \<open>
  \<open>Membership.BeforeCreate\<close> and the INSERT.  The new primary key \<open>newID\<close> stands for
  \<open>uuid.New()\<close>.  The table has a primary key and the unique index \<open>idx_user_team\<close> on
  (user_id, team_id); both cover soft-deleted rows too.
\<close>

definition Membership_BeforeCreate :: "uuid \<Rightarrow> Membership \<Rightarrow> error + Membership" where
  "Membership_BeforeCreate newID m =
     (let m1 = (if mem_ID m = uuid_Nil then m\<lparr>mem_ID := newID\<rparr> else m)
      in if mem_Role m1 = RoleOwner \<or> mem_Role m1 = RoleAdmin \<or> mem_Role m1 = RoleMember
         then Inr m1
         else Inl (ErrorsNew ''invalid membership role''))"

definition Create_Membership :: "uuid \<Rightarrow> Membership \<Rightarrow> DB \<Rightarrow> (error + Membership) \<times> DB" where
  "Create_Membership newID m db =
     (case Membership_BeforeCreate newID m of
        Inl e \<Rightarrow> (Inl e, db)
      | Inr m1 \<Rightarrow>
          if (\<exists>x \<in> set (memberships db). mem_ID x = mem_ID m1
                \<or> (mem_UserID x = mem_UserID m1 \<and> mem_TeamID x = mem_TeamID m1))
          then (Inl ErrDuplicatedKey, tick db)
          else (Inr m1, tick (db\<lparr>memberships := memberships db @ [m1]\<rparr>)))"

text \<open>
  \<open>tx.Where("user_id = ? AND team_id = ?", ...).FirstOrCreate(&membership)\<close>: a SELECT of
  the live row; the INSERT of \<open>membership\<close> only when there is none.  A row that is
  found is loaded into \<open>membership\<close> and not written.  \<open>raceI\<close> is what other callers
  commit between the SELECT and the INSERT; a call that runs alone has \<open>raceI = id\<close>.
\<close>

definition FirstOrCreate_Membership ::
  "(DB \<Rightarrow> DB) \<Rightarrow> uuid \<Rightarrow> Membership \<Rightarrow> DB \<Rightarrow> (error + Membership) \<times> DB" where
  "FirstOrCreate_Membership raceI newID m db =
     (case First mem_ID (\<lambda>x. live_mem x \<and> mem_UserID x = mem_UserID m \<and> mem_TeamID x = mem_TeamID m)
             (memberships db) of
        Some found \<Rightarrow> (Inr found, tick db)
      | None \<Rightarrow> Create_Membership newID m (raceI (tick db)))"

text \<open>
  The storage as other callers see it after that step: the step's own INSERT, which is
  not committed yet, left out.
\<close>

definition before_insert :: "(DB \<Rightarrow> DB) \<Rightarrow> Membership \<Rightarrow> DB \<Rightarrow> DB" where
  "before_insert raceI m db =
     (case First mem_ID (\<lambda>x. live_mem x \<and> mem_UserID x = mem_UserID m \<and> mem_TeamID x = mem_TeamID m)
             (memberships db) of
        Some found \<Rightarrow> tick db
      | None \<Rightarrow> raceI (tick db))"

definition FindMembershipByUserAndTeam :: "DB \<Rightarrow> uuid \<Rightarrow> uuid \<Rightarrow> (error + Membership) \<times> DB" where
  "FindMembershipByUserAndTeam db userID teamID =
     (case First mem_ID (\<lambda>x. live_mem x \<and> mem_UserID x = userID \<and> mem_TeamID x = teamID)
             (memberships db) of
        None \<Rightarrow> (Inl ErrRecordNotFound, tick db)
      | Some m \<Rightarrow> (Inr m, tick db))"

section \<open>models: Invitation\<close>

text \<open>
  The guarded write \<open>Model(&invitation).Where("status = ?", StatusPending).Update("status", s)\<close>:
  it addresses the live row with the primary key of \<open>invitation\<close>, and only while its
  status is still pending.
\<close>

definition guarded_status_update :: "uuid \<Rightarrow> InvitationStatus \<Rightarrow> DB \<Rightarrow> nat \<times> DB" where
  "guarded_status_update invID s db =
     (case UpdateWhere (\<lambda>i. live_inv i \<and> inv_ID i = invID \<and> inv_Status i = StatusPending)
             (\<lambda>i. i\<lparr>inv_Status := s\<rparr>) (invitations db) of
        (n, rows) \<Rightarrow> (n, tick (db\<lparr>invitations := rows\<rparr>)))"

text \<open>
  \<open>AcceptInvitation\<close>.  \<open>now\<close> is \<open>time.Now()\<close>, \<open>newID\<close> is \<open>uuid.New()\<close> for the
  membership.  \<open>raceI\<close> is the window inside \<open>FirstOrCreate\<close>; \<open>race\<close> is what other
  callers commit between the membership step and the guarded write (the window the
  source's comment "Status might have changed between check and update" speaks of); a
  call that runs alone has \<open>raceI = id\<close> and \<open>race = id\<close>.  The result is the triple the
  source returns, and the storage after the transaction has committed or rolled back.
  Up to the INSERT of the membership the transaction has written nothing, so a rollback
  before it leaves the storage as the transaction saw it.

  \<open>Model(&invitation).Update("status", StatusAccepted)\<close> also sets the field \<open>Status\<close> of
  the struct \<open>invitation\<close> in memory, whatever the number of rows it affects.  The
  re-read after a write of zero rows loads into that struct, which has its primary key
  set, so it addresses that row; its error is dropped by the source, and the struct
  keeps its value, with the status the update has set, when no row is found.
\<close>

definition AcceptInvitation ::
  "(DB \<Rightarrow> DB) \<Rightarrow> (DB \<Rightarrow> DB) \<Rightarrow> time \<Rightarrow> uuid \<Rightarrow> DB \<Rightarrow> uuid \<Rightarrow> string
     \<Rightarrow> (Membership option \<times> Invitation \<times> error option) \<times> DB" where
  "AcceptInvitation raceI race now newID db userID token =
     (case First inv_ID (\<lambda>i. live_inv i \<and> inv_Token i = token) (invitations db) of
        None \<Rightarrow> ((None, zero_Invitation, Some ErrRecordNotFound), tick db)
      | Some invitation \<Rightarrow>
          if inv_Status invitation \<noteq> StatusPending
          then ((None, invitation, Some (ErrorsNew ''invitation is no longer pending'')), tick db)
          else if inv_ExpiresAt invitation < now
          then ((None, invitation, Some (ErrorsNew ''invitation has expired'')), tick db)
          else
            (case First usr_ID (\<lambda>u. live_usr u \<and> usr_ID u = userID) (users db) of
               None \<Rightarrow>
                 ((None, invitation, Some (ErrorsNew ''failed to find accepting user'')), tick (tick db))
             | Some user \<Rightarrow>
                 if usr_Email user \<noteq> inv_Email invitation
                 then ((None, invitation,
                        Some (ErrorsNew ''authenticated user email does not match invited email'')),
                       tick (tick db))
                 else
                   (case FirstOrCreate_Membership raceI newID
                           \<lparr>mem_ID = uuid_Nil, mem_DeletedAt = None, mem_UserID = userID,
                            mem_TeamID = inv_TeamID invitation, mem_Role = inv_Role invitation\<rparr>
                           (tick (tick db)) of
                      (Inl e, db3) \<Rightarrow> ((None, invitation, Some e), db3)
                    | (Inr membership, db3) \<Rightarrow>
                        (case guarded_status_update (inv_ID invitation) StatusAccepted (race db3) of
                           (n, db4) \<Rightarrow>
                             if n = 0
                             then
                               ((None,
                                 (case First inv_ID
                                         (\<lambda>i. live_inv i \<and> inv_Token i = token \<and> inv_ID i = inv_ID invitation)
                                         (invitations db4) of
                                    None \<Rightarrow> invitation\<lparr>inv_Status := StatusAccepted\<rparr>
                                  | Some i \<Rightarrow> i),
                                 Some (ErrorsNew
                                   ''failed to update invitation status, it might have been accepted or declined already'')),
                                rollback
                                  (race (before_insert raceI
                                     \<lparr>mem_ID = uuid_Nil, mem_DeletedAt = None, mem_UserID = userID,
                                      mem_TeamID = inv_TeamID invitation, mem_Role = inv_Role invitation\<rparr>
                                     (tick (tick db))))
                                  (tick db4))
                             else
                               ((Some membership, invitation\<lparr>inv_Status := StatusAccepted\<rparr>, None), db4)))))"

text \<open>
  \<open>UpdateInvitationStatus\<close> runs outside a transaction: each statement commits by itself.
  \<open>race\<close> is what other callers commit between its read and its guarded write.  As in
  \<open>AcceptInvitation\<close>, the update has set the status of the struct in memory, and the
  struct keeps it when the re-read finds no row.
\<close>

definition UpdateInvitationStatus ::
  "(DB \<Rightarrow> DB) \<Rightarrow> DB \<Rightarrow> uuid \<Rightarrow> InvitationStatus \<Rightarrow> (Invitation option \<times> error option) \<times> DB" where
  "UpdateInvitationStatus race db invitationID newStatus =
     (case First inv_ID (\<lambda>i. live_inv i \<and> inv_ID i = invitationID) (invitations db) of
        None \<Rightarrow> ((None, Some ErrRecordNotFound), tick db)
      | Some invitation \<Rightarrow>
          if inv_Status invitation = newStatus
          then ((Some invitation, None), tick db)
          else if inv_Status invitation \<noteq> StatusPending
          then ((Some invitation, Some (ErrorsNew ''invitation is no longer pending'')), tick db)
          else
            (case guarded_status_update (inv_ID invitation) newStatus (race (tick db)) of
               (n, db2) \<Rightarrow>
                 if n = 0
                 then
                   ((Some (case First inv_ID (\<lambda>i. live_inv i \<and> inv_ID i = invitationID)
                                   (invitations db2) of
                             None \<Rightarrow> invitation\<lparr>inv_Status := newStatus\<rparr>
                           | Some i \<Rightarrow> i),
                     Some (ErrorsNew ''invitation status changed unexpectedly'')),
                    tick db2)
                 else ((Some (invitation\<lparr>inv_Status := newStatus\<rparr>), None), db2)))"

text \<open>
  \<open>Invitation.BeforeCreate\<close> and \<open>CreateInvitation\<close>.  \<open>newID\<close> is \<open>uuid.New()\<close>;
  \<open>newToken\<close> is the result of \<open>GenerateInvitationToken\<close> (\<open>None\<close> when the random
  source fails).  Time 0 is the zero \<open>time.Time\<close>.  The table has a primary key and a
  unique index on the token.
\<close>

definition Invitation_BeforeCreate ::
  "time \<Rightarrow> uuid \<Rightarrow> string option \<Rightarrow> Invitation \<Rightarrow> error + Invitation" where
  "Invitation_BeforeCreate now newID newToken iv =
     (let iv1 = (if inv_ID iv = uuid_Nil then iv\<lparr>inv_ID := newID\<rparr> else iv)
      in case (if inv_Token iv1 = [] then newToken else Some (inv_Token iv1)) of
           None \<Rightarrow> Inl (ErrorsNew ''crypto/rand: read failed'')
         | Some token \<Rightarrow>
             (let iv2 = iv1\<lparr>inv_Token := token\<rparr>;
                  iv3 = (if inv_ExpiresAt iv2 = 0
                          then iv2\<lparr>inv_ExpiresAt := now + 7 * 24 * 3600\<rparr> else iv2);
                  iv4 = (if inv_Status iv3 = [] then iv3\<lparr>inv_Status := StatusPending\<rparr> else iv3)
              in if inv_Role iv4 = RoleOwner then Inl (ErrorsNew ''cannot invite user as owner'')
                 else if inv_Role iv4 = RoleAdmin \<or> inv_Role iv4 = RoleMember then Inr iv4
                 else Inl (ErrorsNew ''invalid role for invitation'')))"

definition CreateInvitation ::
  "time \<Rightarrow> uuid \<Rightarrow> string option \<Rightarrow> DB \<Rightarrow> Invitation \<Rightarrow> (error + Invitation) \<times> DB" where
  "CreateInvitation now newID newToken db invitation =
     (case Invitation_BeforeCreate now newID newToken invitation of
        Inl e \<Rightarrow> (Inl e, db)
      | Inr iv \<Rightarrow>
          if (\<exists>x \<in> set (invitations db). inv_ID x = inv_ID iv \<or> inv_Token x = inv_Token iv)
          then (Inl ErrDuplicatedKey, tick db)
          else (Inr iv, tick (db\<lparr>invitations := invitations db @ [iv]\<rparr>)))"

text \<open>
  \<open>FindInvitationByTokenWithTeam\<close> preloads the team with a second SELECT when the
  invitation is found; the team itself is not part of the model.
\<close>

definition FindInvitationByTokenWithTeam :: "DB \<Rightarrow> string \<Rightarrow> (error + Invitation) \<times> DB" where
  "FindInvitationByTokenWithTeam db token =
     (case First inv_ID (\<lambda>i. live_inv i \<and> inv_Token i = token) (invitations db) of
        None \<Rightarrow> (Inl ErrRecordNotFound, tick db)
      | Some i \<Rightarrow> (Inr i, tick (tick db)))"

definition FindPendingInvitationByTeamAndEmail ::
  "DB \<Rightarrow> uuid \<Rightarrow> string \<Rightarrow> (error + Invitation) \<times> DB" where
  "FindPendingInvitationByTeamAndEmail db teamID email =
     (case First inv_ID
             (\<lambda>i. live_inv i \<and> inv_TeamID i = teamID \<and> inv_Email i = email \<and> inv_Status i = StatusPending)
             (invitations db) of
        None \<Rightarrow> (Inl ErrRecordNotFound, tick db)
      | Some i \<Rightarrow> (Inr i, tick db))"

definition FindInvitationByIDAndTeam :: "DB \<Rightarrow> uuid \<Rightarrow> uuid \<Rightarrow> (error + Invitation) \<times> DB" where
  "FindInvitationByIDAndTeam db invitationID teamID =
     (case First inv_ID (\<lambda>i. live_inv i \<and> inv_ID i = invitationID \<and> inv_TeamID i = teamID)
             (invitations db) of
        None \<Rightarrow> (Inl ErrRecordNotFound, tick db)
      | Some i \<Rightarrow> (Inr i, tick db))"

definition FindUserByEmail :: "DB \<Rightarrow> string \<Rightarrow> (error + User) \<times> DB" where
  "FindUserByEmail db email =
     (case First usr_ID (\<lambda>u. live_usr u \<and> usr_Email u = email) (users db) of
        None \<Rightarrow> (Inl ErrRecordNotFound, tick db)
      | Some u \<Rightarrow> (Inr u, tick db))"

text \<open>
  \<open>DeleteInvitation\<close>: the soft delete sets \<open>deleted_at\<close> on the live row with that
  primary key and writes nothing else.
\<close>

definition DeleteInvitation :: "time \<Rightarrow> DB \<Rightarrow> uuid \<Rightarrow> error option \<times> DB" where
  "DeleteInvitation now db invitationID =
     (case First inv_ID (\<lambda>i. live_inv i \<and> inv_ID i = invitationID) (invitations db) of
        None \<Rightarrow> (Some ErrRecordNotFound, tick db)
      | Some invitation \<Rightarrow>
          (case UpdateWhere (\<lambda>i. live_inv i \<and> inv_ID i = inv_ID invitation)
                  (\<lambda>i. i\<lparr>inv_DeletedAt := Some now\<rparr>) (invitations db) of
             (n, rows) \<Rightarrow>
               if n = 0 then (Some ErrRecordNotFound, tick (tick (db\<lparr>invitations := rows\<rparr>)))
               else (None, tick (tick (db\<lparr>invitations := rows\<rparr>)))))"

section \<open>internal/logic/teams: the request handlers\<close>

text \<open>
  The value stored under \<open>middleware.ContextUserKey\<close>: absent, a \<open>*models.User\<close>
  (possibly a nil pointer), or a value of another type.
\<close>

datatype ctx_value = CtxUser "User option" | CtxOther

type_synonym Context = "ctx_value option"

record RespInvitation =
  ri_Email :: string
  ri_TeamID :: uuid
  ri_Role :: string
  ri_Token :: string
  ri_Status :: string
  ri_ExpiresAt :: time

record InvitationResponse =
  resp_Success :: bool
  resp_Message :: string
  resp_Invitation :: RespInvitation

definition respInvitation :: "Invitation \<Rightarrow> RespInvitation" where
  "respInvitation i = \<lparr>ri_Email = inv_Email i, ri_TeamID = inv_TeamID i, ri_Role = inv_Role i,
     ri_Token = inv_Token i, ri_Status = inv_Status i, ri_ExpiresAt = inv_ExpiresAt i\<rparr>"

definition zero_RespInvitation :: RespInvitation where
  "zero_RespInvitation = \<lparr>ri_Email = [], ri_TeamID = uuid_Nil, ri_Role = [], ri_Token = [],
     ri_Status = [], ri_ExpiresAt = 0\<rparr>"

text \<open>\<open>err.Error()\<close>, for the comparisons the handlers make on the message.\<close>

fun Error :: "error \<Rightarrow> string" where
  "Error ErrRecordNotFound = ''record not found''"
| "Error (ErrorsNew s) = s"
| "Error ErrDuplicatedKey = ''duplicated key not allowed''"
| "Error (HTTPError c m) = m"

definition PostAcceptInvitation ::
  "(DB \<Rightarrow> DB) \<Rightarrow> (DB \<Rightarrow> DB) \<Rightarrow> time \<Rightarrow> uuid \<Rightarrow> DB \<Rightarrow> Context \<Rightarrow> string
     \<Rightarrow> (error + InvitationResponse) \<times> DB" where
  "PostAcceptInvitation raceI race now newID db c token =
     (if token = [] then (Inl (HTTPError 400 ''Invitation token is required''), db)
      else case c of
        None \<Rightarrow> (Inl (HTTPError 401 ''User not authenticated''), db)
      | Some CtxOther \<Rightarrow> (Inl (HTTPError 500 ''Error retrieving user data''), db)
      | Some (CtxUser None) \<Rightarrow> (Inl (HTTPError 500 ''Error retrieving user data''), db)
      | Some (CtxUser (Some acceptingUser)) \<Rightarrow>
          (case AcceptInvitation raceI race now newID db (usr_ID acceptingUser) token of
             ((m, finalInvitation, err), db') \<Rightarrow>
               if err = Some ErrRecordNotFound
               then (Inl (HTTPError 404 ''Invitation not found or invalid''), db')
               else if map_option Error err = Some ''invitation is no longer pending''
               then (Inl (HTTPError 400 ''This invitation is no longer pending''), db')
               else if map_option Error err = Some ''invitation has expired''
               then (Inl (HTTPError 400 ''This invitation has expired''), db')
               else if map_option Error err = Some ''authenticated user email does not match invited email''
               then (Inl (HTTPError 403 ''This invitation is not addressed to your email''), db')
               else if err \<noteq> None \<and> map_option Error err \<noteq> Some
                   ''failed to update invitation status, it might have been accepted or declined already''
               then (Inl (HTTPError 500 ''Failed to accept invitation''), db')
               else (Inr \<lparr>resp_Success = True, resp_Message = ''Invitation accepted successfully'',
                          resp_Invitation = respInvitation finalInvitation\<rparr>, db')))"

text \<open>
  \<open>UpdateInvitationStatus\<close> never returns a nil invitation together with a nil error;
  the case is closed here with the answer for an unexpected failure.
\<close>

definition PostDeclineInvitation ::
  "(DB \<Rightarrow> DB) \<Rightarrow> time \<Rightarrow> DB \<Rightarrow> Context \<Rightarrow> string \<Rightarrow> (error + InvitationResponse) \<times> DB" where
  "PostDeclineInvitation race now db c token =
     (if token = [] then (Inl (HTTPError 400 ''Invitation token is required''), db)
      else case c of
        None \<Rightarrow> (Inl (HTTPError 401 ''User not authenticated''), db)
      | Some CtxOther \<Rightarrow> (Inl (HTTPError 500 ''Error retrieving user data''), db)
      | Some (CtxUser None) \<Rightarrow> (Inl (HTTPError 500 ''Error retrieving user data''), db)
      | Some (CtxUser (Some decliningUser)) \<Rightarrow>
          (case FindInvitationByTokenWithTeam db token of
             (Inl e, db1) \<Rightarrow>
               if e = ErrRecordNotFound
               then (Inl (HTTPError 404 ''Invitation not found or invalid''), db1)
               else (Inl (HTTPError 500 ''Failed to retrieve invitation''), db1)
           | (Inr invitation, db1) \<Rightarrow>
               if inv_Status invitation \<noteq> StatusPending
               then (Inl (HTTPError 400 ''This invitation is no longer pending''), db1)
               else if inv_ExpiresAt invitation < now
               then (Inl (HTTPError 400 ''This invitation has expired''), db1)
               else if inv_Email invitation \<noteq> usr_Email decliningUser
               then (Inl (HTTPError 403 ''This invitation is not addressed to your email''), db1)
               else
                 (case UpdateInvitationStatus race db1 (inv_ID invitation) StatusDeclined of
                    ((updatedInvitation, Some err), db2) \<Rightarrow>
                      if Error err = ''invitation is no longer pending''
                      then (Inl (HTTPError 409 ''Invitation was already accepted or cancelled''), db2)
                      else if Error err = ''invitation status changed unexpectedly''
                      then (Inl (HTTPError 409 ''Invitation status changed unexpectedly''), db2)
                      else (Inl (HTTPError 500 ''Failed to update invitation status''), db2)
                  | ((None, None), db2) \<Rightarrow>
                      (Inl (HTTPError 500 ''Failed to update invitation status''), db2)
                  | ((Some updatedInvitation, None), db2) \<Rightarrow>
                      (Inr \<lparr>resp_Success = True, resp_Message = ''Invitation declined successfully'',
                            resp_Invitation = respInvitation updatedInvitation\<rparr>, db2))))"

text \<open>
  \<open>uuid_Parse\<close> is \<open>uuid.Parse\<close> of the google/uuid package, \<open>None\<close> when it rejects
  the text.
\<close>

definition DeleteCancelInvitation ::
  "(string \<Rightarrow> uuid option) \<Rightarrow> time \<Rightarrow> DB \<Rightarrow> Context \<Rightarrow> string \<Rightarrow> string
     \<Rightarrow> (error + InvitationResponse) \<times> DB" where
  "DeleteCancelInvitation uuid_Parse now db c req_TeamID req_InvitationID =
     (case c of
        None \<Rightarrow> (Inl (HTTPError 401 ''User not authenticated''), db)
      | Some CtxOther \<Rightarrow> (Inl (HTTPError 500 ''Error retrieving user data''), db)
      | Some (CtxUser None) \<Rightarrow> (Inl (HTTPError 500 ''Error retrieving user data''), db)
      | Some (CtxUser (Some authedUser)) \<Rightarrow>
          (case uuid_Parse req_TeamID of
             None \<Rightarrow> (Inl (HTTPError 400 ''Invalid team ID format''), db)
           | Some teamUUID \<Rightarrow>
          (case uuid_Parse req_InvitationID of
             None \<Rightarrow> (Inl (HTTPError 400 ''Invalid invitation ID format''), db)
           | Some invitationUUID \<Rightarrow>
          (case FindMembershipByUserAndTeam db (usr_ID authedUser) teamUUID of
             (Inl e, db1) \<Rightarrow>
               if e = ErrRecordNotFound
               then (Inl (HTTPError 403 ''You do not have permission to access this team''), db1)
               else (Inl (HTTPError 500 ''Failed to verify team membership''), db1)
           | (Inr requestingMembership, db1) \<Rightarrow>
               if \<not> (mem_Role requestingMembership = RoleOwner \<or> mem_Role requestingMembership = RoleAdmin)
               then (Inl (HTTPError 403 ''You do not have permission to cancel invitations for this team''), db1)
               else
                 (case FindInvitationByIDAndTeam db1 invitationUUID teamUUID of
                    (Inl e, db2) \<Rightarrow>
                      if e = ErrRecordNotFound
                      then (Inl (HTTPError 404 ''Invitation not found in this team''), db2)
                      else (Inl (HTTPError 500 ''Failed to find invitation''), db2)
                  | (Inr invitation, db2) \<Rightarrow>
                      if inv_Status invitation \<noteq> StatusPending
                      then (Inl (HTTPError 409
                              ''This invitation is no longer pending and cannot be cancelled''), db2)
                      else
                        (case DeleteInvitation now db2 (inv_ID invitation) of
                           (Some e, db3) \<Rightarrow>
                             if e = ErrRecordNotFound
                             then (Inl (HTTPError 404 ''Invitation not found (or already cancelled)''), db3)
                             else (Inl (HTTPError 500 ''Failed to cancel invitation''), db3)
                         | (None, db3) \<Rightarrow>
                             (Inr \<lparr>resp_Success = True, resp_Message = ''Invitation cancelled successfully'',
                                   resp_Invitation = zero_RespInvitation\<rparr>, db3)))))))"

definition PostInviteMember ::
  "(string \<Rightarrow> uuid option) \<Rightarrow> time \<Rightarrow> uuid \<Rightarrow> string option \<Rightarrow> DB \<Rightarrow> Context
     \<Rightarrow> string \<Rightarrow> string \<Rightarrow> string \<Rightarrow> (error + InvitationResponse) \<times> DB" where
  "PostInviteMember uuid_Parse now newID newToken db c req_TeamID req_Email req_Role =
     (case c of
        None \<Rightarrow> (Inl (HTTPError 401 ''User not authenticated''), db)
      | Some CtxOther \<Rightarrow> (Inl (HTTPError 500 ''Error retrieving user data''), db)
      | Some (CtxUser None) \<Rightarrow> (Inl (HTTPError 500 ''Error retrieving user data''), db)
      | Some (CtxUser (Some authedUser)) \<Rightarrow>
          (case uuid_Parse req_TeamID of
             None \<Rightarrow> (Inl (HTTPError 400 ''Invalid team ID format''), db)
           | Some teamUUID \<Rightarrow>
          if req_Email = [] then (Inl (HTTPError 400 ''Invited email is required''), db)
          else if req_Role \<noteq> RoleAdmin \<and> req_Role \<noteq> RoleMember
          then (Inl (HTTPError 400 (''invalid role specified: '' @ req_Role @ ''. Must be ''
                  @ [CHR 0x27] @ ''admin'' @ [CHR 0x27] @ '' or '' @ [CHR 0x27] @ ''member'' @ [CHR 0x27])), db)
          else
          (case FindMembershipByUserAndTeam db (usr_ID authedUser) teamUUID of
             (Inl e, db1) \<Rightarrow>
               if e = ErrRecordNotFound
               then (Inl (HTTPError 403 ''You do not have permission to access this team''), db1)
               else (Inl (HTTPError 500 ''Failed to verify team membership''), db1)
           | (Inr inviterMembership, db1) \<Rightarrow>
               if \<not> (mem_Role inviterMembership = RoleOwner \<or> mem_Role inviterMembership = RoleAdmin)
               then (Inl (HTTPError 403 ''You do not have permission to invite members to this team''), db1)
               else
                 (case (case FindUserByEmail db1 req_Email of
                          (Inr invitedUser, db2) \<Rightarrow>
                            (case FindMembershipByUserAndTeam db2 (usr_ID invitedUser) teamUUID of
                               (Inr existing, db3) \<Rightarrow>
                                 (Some (HTTPError 409 ''This user is already a member of the team''), db3)
                             | (Inl e, db3) \<Rightarrow>
                                 if e \<noteq> ErrRecordNotFound
                                 then (Some (HTTPError 500 ''Failed to check existing membership''), db3)
                                 else (None, db3))
                        | (Inl e, db2) \<Rightarrow>
                            if e \<noteq> ErrRecordNotFound
                            then (Some (HTTPError 500 ''Failed to check invited user''), db2)
                            else (None, db2)) of
                    (Some e, db3) \<Rightarrow> (Inl e, db3)
                  | (None, db3) \<Rightarrow>
                      (case FindPendingInvitationByTeamAndEmail db3 teamUUID req_Email of
                         (Inr existing, db4) \<Rightarrow>
                           (Inl (HTTPError 409 ''An invitation for this email address is already pending''), db4)
                       | (Inl e, db4) \<Rightarrow>
                           if e \<noteq> ErrRecordNotFound
                           then (Inl (HTTPError 500 ''Failed to check existing invitations''), db4)
                           else
                             (case CreateInvitation now newID newToken db4
                                     \<lparr>inv_ID = uuid_Nil, inv_DeletedAt = None, inv_Email = req_Email,
                                      inv_TeamID = teamUUID, inv_InviterID = usr_ID authedUser,
                                      inv_Role = req_Role, inv_Token = [], inv_Status = StatusPending,
                                      inv_ExpiresAt = 0\<rparr> of
                                (Inl e, db5) \<Rightarrow> (Inl (HTTPError 500 ''Failed to create invitation''), db5)
                              | (Inr invitation, db5) \<Rightarrow>
                                  (Inr \<lparr>resp_Success = True, resp_Message = ''Invitation sent successfully'',
                                        resp_Invitation = respInvitation invitation\<rparr>, db5)))))))"

text \<open>
  The storage states the invitation endpoints can produce, each request running alone
  (\<open>raceI = id\<close>, \<open>race = id\<close>).  Requests of the other endpoints do not write the invitation table;
  they are the steps that keep it as it is and may change everything else.
\<close>

inductive reachable :: "DB \<Rightarrow> bool" where
  reach_init: "reachable \<lparr>users = [], plans = [], subscriptions = [], invitations = [],
      memberships = [], stmts = 0\<rparr>"
| reach_other: "reachable db \<Longrightarrow> invitations db' = invitations db \<Longrightarrow> reachable db'"
| reach_invite: "reachable db \<Longrightarrow>
      PostInviteMember uuid_Parse now newID newToken db c team email role = (r, db') \<Longrightarrow> reachable db'"
| reach_accept: "reachable db \<Longrightarrow>
      PostAcceptInvitation id id now newID db c token = (r, db') \<Longrightarrow> reachable db'"
| reach_decline: "reachable db \<Longrightarrow>
      PostDeclineInvitation id now db c token = (r, db') \<Longrightarrow> reachable db'"
| reach_cancel: "reachable db \<Longrightarrow>
      DeleteCancelInvitation uuid_Parse now db c team invitation = (r, db') \<Longrightarrow> reachable db'"

section \<open>internal/logic/billing: the webhook processor\<close>

text \<open>
  The types of the billing provider's SDK, as far as the handlers read them.  A Go
  pointer is an option: \<open>None\<close> is the nil pointer.  The items of a subscription are a
  pointer to a list object; the price of an item is a pointer.
\<close>

record StripePrice =
  price_ID :: string

record StripeItem =
  item_Price :: "StripePrice option"

record StripeSubscription =
  ssub_ID :: string
  ssub_Status :: string
  ssub_Items :: "StripeItem list option"
  ssub_CurrentPeriodStart :: int
  ssub_CurrentPeriodEnd :: int
  ssub_CancelAtPeriodEnd :: bool

record StripeCustomer =
  cust_ID :: string

record CheckoutSession =
  cs_ClientReferenceID :: string
  cs_Customer :: "StripeCustomer option"
  cs_Subscription :: "StripeSubscription option"

record Invoice =
  invoice_ID :: string
  invoice_Status :: string
  invoice_Subscription :: "StripeSubscription option"

record Event =
  ev_Type :: string
  ev_ID :: string
  ev_Data_Raw :: string

text \<open>
  What the handlers call outside this repository: \<open>webhook.ConstructEvent\<close> (payload,
  signature header, secret; \<open>Inl\<close> carries the text of its error), \<open>json.Unmarshal\<close> of
  the event data into each SDK type, \<open>subscription.Get\<close> (the provider's API; \<open>None\<close> is
  an error) and \<open>uuid.Parse\<close>.
\<close>

record Lib =
  lib_ConstructEvent :: "string \<Rightarrow> string \<Rightarrow> string \<Rightarrow> string + Event"
  lib_UnmarshalSession :: "string \<Rightarrow> CheckoutSession option"
  lib_UnmarshalSubscription :: "string \<Rightarrow> StripeSubscription option"
  lib_UnmarshalInvoice :: "string \<Rightarrow> Invoice option"
  lib_subscription_Get :: "string \<Rightarrow> StripeSubscription option"
  lib_uuid_Parse :: "string \<Rightarrow> uuid option"

record Config =
  cfg_WebhookSecret :: string
  cfg_SecretKey :: string

text \<open>
  The request: its body (\<open>None\<close> when \<open>io.ReadAll\<close> fails) and the value of the
  \<open>Stripe-Signature\<close> header (empty when the header is missing).
\<close>

record Request =
  req_Body :: "string option"
  req_StripeSignature :: string

record Response =
  r_Success :: bool
  r_Message :: string

text \<open>A call returns, or panics on a nil pointer dereference.\<close>

datatype 'a outcome = Return 'a | Panic

definition InvoiceStatusPaid :: string where "InvoiceStatusPaid = ''paid''"
definition SubscriptionStatusActive :: string where "SubscriptionStatusActive = ''active''"
definition SubscriptionStatusPastDue :: string where "SubscriptionStatusPastDue = ''past_due''"

text \<open>
  \<open>time.Unix(sec, 0)\<close>, on the scale where 0 is the zero \<open>time.Time\<close> (year 1): the
  seconds are \<open>sec + unixToInternal\<close>, an addition of \<open>int64\<close> values, which wraps.
\<close>

definition wrap_int64 :: "int \<Rightarrow> int" where
  "wrap_int64 x = (x + 2 ^ 63) mod 2 ^ 64 - 2 ^ 63"

definition time_Unix :: "int \<Rightarrow> time" where
  "time_Unix sec = wrap_int64 (wrap_int64 sec + 62135596800)"

text \<open>
  \<open>DB.Transaction\<close>: the closure's writes are kept when it returns nil, and rolled back
  when it returns an error or panics.
\<close>

definition Transaction ::
  "(DB \<Rightarrow> error option outcome \<times> DB) \<Rightarrow> DB \<Rightarrow> error option outcome \<times> DB" where
  "Transaction fc db =
     (case fc db of
        (Return None, tx) \<Rightarrow> (Return None, tx)
      | (r, tx) \<Rightarrow> (r, rollback db tx))"

text \<open>
  \<open>Where("stripe_price_id = ?", id).Or("stripe_price_id_yearly = ?", id).First(&plan)\<close>.
\<close>

definition First_Plan_by_price :: "string \<Rightarrow> DB \<Rightarrow> Plan option" where
  "First_Plan_by_price stripePriceID db =
     First plan_ID
       (\<lambda>p. plan_DeletedAt p = None
            \<and> (plan_StripePriceID p = stripePriceID \<or> plan_StripePriceIDYearly p = Some stripePriceID))
       (plans db)"

text \<open>
  \<open>Model(&models.User{}).Where("id = ?", userID).Update("stripe_customer_id", id)\<close>.
  The column has a unique index: the write fails when a row it does not address holds
  that customer id already.
\<close>

definition Update_User_StripeCustomerID :: "uuid \<Rightarrow> string \<Rightarrow> DB \<Rightarrow> error option \<times> DB" where
  "Update_User_StripeCustomerID userID stripeCustomerID db =
     (if (\<exists>u \<in> set (users db). \<not> (live_usr u \<and> usr_ID u = userID)
            \<and> usr_StripeCustomerID u = Some stripeCustomerID)
      then (Some ErrDuplicatedKey, tick db)
      else (None, tick (db\<lparr>users :=
              snd (UpdateWhere (\<lambda>u. live_usr u \<and> usr_ID u = userID)
                     (\<lambda>u. u\<lparr>usr_StripeCustomerID := Some stripeCustomerID\<rparr>) (users db))\<rparr>)))"

text \<open>
  \<open>Assign(subscriptionRecord)\<close> with a struct: gorm turns the struct into the
  assignments of its non-zero fields.  The zero primary key, a nil user id, an empty
  string and the flag \<open>false\<close> are not assigned; a \<open>time.Unix\<close> value is never the
  zero struct and is always assigned.
\<close>

definition Assign_struct :: "Subscription \<Rightarrow> Subscription \<Rightarrow> Subscription" where
  "Assign_struct a row =
     row\<lparr>sub_UserID := (if sub_UserID a = uuid_Nil then sub_UserID row else sub_UserID a),
         sub_PlanID := (if sub_PlanID a = [] then sub_PlanID row else sub_PlanID a),
         sub_StripeSubscriptionID :=
           (if sub_StripeSubscriptionID a = [] then sub_StripeSubscriptionID row
            else sub_StripeSubscriptionID a),
         sub_Status := (if sub_Status a = [] then sub_Status row else sub_Status a),
         sub_CurrentPeriodStart := sub_CurrentPeriodStart a,
         sub_CurrentPeriodEnd := sub_CurrentPeriodEnd a,
         sub_CancelAtPeriodEnd := (if sub_CancelAtPeriodEnd a then True else sub_CancelAtPeriodEnd row)\<rparr>"

text \<open>
  \<open>Where(Subscription{StripeSubscriptionID: id}).Assign(rec).FirstOrCreate(&rec)\<close>: the
  SELECT by the external id; when no row is found, the INSERT of \<open>rec\<close> (its primary key
  comes from the column default, \<open>newID\<close>); when a row is found, the UPDATE of that row
  with the assignments.
\<close>

definition FirstOrCreate_Subscription :: "uuid \<Rightarrow> Subscription \<Rightarrow> DB \<Rightarrow> error option \<times> DB" where
  "FirstOrCreate_Subscription newID rec db =
     (case First sub_ID (\<lambda>s. sub_StripeSubscriptionID s = sub_StripeSubscriptionID rec)
             (subscriptions db) of
        None \<Rightarrow>
          if (\<exists>s \<in> set (subscriptions db). sub_ID s = newID)
          then (Some ErrDuplicatedKey, tick (tick db))
          else (None, tick (tick (db\<lparr>subscriptions := subscriptions db @ [rec\<lparr>sub_ID := newID\<rparr>]\<rparr>)))
      | Some found \<Rightarrow>
          (None, tick (tick (db\<lparr>subscriptions :=
             snd (UpdateWhere
                    (\<lambda>s. sub_ID s = sub_ID found
                       \<and> sub_StripeSubscriptionID s = sub_StripeSubscriptionID rec)
                    (Assign_struct rec) (subscriptions db))\<rparr>))))"

text \<open>
  \<open>Model(&models.Subscription{}).Where("stripe_subscription_id = ?", id).Update("status", s)\<close>.
\<close>

definition Update_Subscription_status :: "string \<Rightarrow> string \<Rightarrow> DB \<Rightarrow> nat \<times> DB" where
  "Update_Subscription_status stripeSubscriptionID s db =
     (case UpdateWhere (\<lambda>r. sub_StripeSubscriptionID r = stripeSubscriptionID)
             (\<lambda>r. r\<lparr>sub_Status := s\<rparr>) (subscriptions db) of
        (n, rows) \<Rightarrow> (n, tick (db\<lparr>subscriptions := rows\<rparr>)))"

text \<open>
  \<open>handleCheckoutSessionCompleted\<close>.  Its first statement logs \<open>session.Customer.ID\<close>
  and \<open>session.Subscription.ID\<close>, before the nil checks that follow it.
\<close>

definition handleCheckoutSessionCompleted ::
  "Lib \<Rightarrow> uuid \<Rightarrow> CheckoutSession \<Rightarrow> DB \<Rightarrow> error option outcome \<times> DB" where
  "handleCheckoutSessionCompleted lib newID session db =
     (case cs_Customer session of
        None \<Rightarrow> (Panic, db)
      | Some customer \<Rightarrow>
     (case cs_Subscription session of
        None \<Rightarrow> (Panic, db)
      | Some subscription \<Rightarrow>
          if cs_ClientReferenceID session = [] \<or> cust_ID customer = [] \<or> ssub_ID subscription = []
          then (Return (Some (HTTPError 400 ''Webhook payload missing required IDs'')), db)
          else
     (case lib_uuid_Parse lib (cs_ClientReferenceID session) of
        None \<Rightarrow> (Return (Some (HTTPError 400 ''Invalid user identifier in webhook'')), db)
      | Some userID \<Rightarrow>
     (case lib_subscription_Get lib (ssub_ID subscription) of
        None \<Rightarrow>
          (Return (Some (HTTPError 500 ''Failed to retrieve subscription details from Stripe'')), db)
      | Some sub \<Rightarrow>
     (case ssub_Items sub of
        None \<Rightarrow> (Panic, db)
      | Some [] \<Rightarrow>
          (Return (Some (HTTPError 400 ''Subscription details missing plan information'')), db)
      | Some (item # rest) \<Rightarrow>
     (case item_Price item of
        None \<Rightarrow>
          (Return (Some (HTTPError 400 ''Subscription details missing plan information'')), db)
      | Some price \<Rightarrow>
     (case First_Plan_by_price (price_ID price) db of
        None \<Rightarrow>
          (Return (Some (HTTPError 500 ''Could not match subscription to an internal plan'')), tick db)
      | Some plan \<Rightarrow>
          Transaction
            (\<lambda>tx.
               case First usr_ID (\<lambda>u. live_usr u \<and> usr_ID u = userID) (users tx) of
                 None \<Rightarrow>
                   (Return (Some (HTTPError 400 ''User specified in webhook not found'')), tick tx)
               | Some userExists \<Rightarrow>
                   (case Update_User_StripeCustomerID userID (cust_ID customer) (tick tx) of
                      (Some e, tx2) \<Rightarrow>
                        (Return (Some (HTTPError 500 ''Failed to update user billing info'')), tx2)
                    | (None, tx2) \<Rightarrow>
                        (case FirstOrCreate_Subscription newID
                                \<lparr>sub_ID = uuid_Nil, sub_UserID = userID, sub_PlanID = plan_ID plan,
                                 sub_StripeSubscriptionID = ssub_ID subscription,
                                 sub_Status = ssub_Status sub,
                                 sub_CurrentPeriodStart = time_Unix (ssub_CurrentPeriodStart sub),
                                 sub_CurrentPeriodEnd = time_Unix (ssub_CurrentPeriodEnd sub),
                                 sub_CancelAtPeriodEnd = ssub_CancelAtPeriodEnd sub\<rparr> tx2 of
                           (Some e, tx3) \<Rightarrow>
                             (Return (Some (HTTPError 500 ''Failed to save subscription details'')), tx3)
                         | (None, tx3) \<Rightarrow> (Return None, tx3))))
            (tick db))))))))"

text \<open>
  \<open>handleSubscriptionUpdated\<close>.  The update is written from a map, so every column of
  the map is written, zero values included.
\<close>

definition handleSubscriptionUpdated :: "StripeSubscription \<Rightarrow> DB \<Rightarrow> error option outcome \<times> DB" where
  "handleSubscriptionUpdated sub db =
     Transaction
       (\<lambda>tx.
          case First sub_ID (\<lambda>s. sub_StripeSubscriptionID s = ssub_ID sub) (subscriptions tx) of
            None \<Rightarrow> (Return None, tick tx)
          | Some existingSub \<Rightarrow>
              (case ssub_Items sub of
                 None \<Rightarrow> (Panic, tick tx)
               | Some items \<Rightarrow>
                   (case (case items of
                            [] \<Rightarrow> (sub_PlanID existingSub, tick tx)
                          | item # rest \<Rightarrow>
                              (case item_Price item of
                                 None \<Rightarrow> (sub_PlanID existingSub, tick tx)
                               | Some price \<Rightarrow>
                                   (case First_Plan_by_price (price_ID price) tx of
                                      Some plan \<Rightarrow> (plan_ID plan, tick (tick tx))
                                    | None \<Rightarrow> (sub_PlanID existingSub, tick (tick tx))))) of
                      (planID, tx1) \<Rightarrow>
                        (Return None,
                         tick (tx1\<lparr>subscriptions :=
                           snd (UpdateWhere (\<lambda>s. sub_ID s = sub_ID existingSub)
                                  (\<lambda>s. s\<lparr>sub_Status := ssub_Status sub,
                                         sub_CurrentPeriodStart := time_Unix (ssub_CurrentPeriodStart sub),
                                         sub_CurrentPeriodEnd := time_Unix (ssub_CurrentPeriodEnd sub),
                                         sub_CancelAtPeriodEnd := ssub_CancelAtPeriodEnd sub,
                                         sub_PlanID := planID\<rparr>)
                                  (subscriptions tx1))\<rparr>)))))
       db"

definition handleSubscriptionDeleted :: "StripeSubscription \<Rightarrow> DB \<Rightarrow> error option outcome \<times> DB" where
  "handleSubscriptionDeleted sub db =
     Transaction
       (\<lambda>tx. case Update_Subscription_status (ssub_ID sub) (ssub_Status sub) tx of
                (n, tx1) \<Rightarrow> (Return None, tx1))
       db"

text \<open>
  \<open>handleInvoicePaid\<close> and \<open>handleInvoicePaymentFailed\<close>.  The first statement of each
  logs \<open>invoice.Subscription.ID\<close>, before the nil check that follows it.
\<close>

definition handleInvoicePaid :: "Invoice \<Rightarrow> DB \<Rightarrow> error option outcome \<times> DB" where
  "handleInvoicePaid invoice db =
     (case invoice_Subscription invoice of
        None \<Rightarrow> (Panic, db)
      | Some subscription \<Rightarrow>
          if invoice_Status invoice \<noteq> InvoiceStatusPaid \<or> ssub_ID subscription = []
          then (Return None, db)
          else
            Transaction
              (\<lambda>tx. case Update_Subscription_status (ssub_ID subscription) SubscriptionStatusActive tx of
                       (n, tx1) \<Rightarrow> (Return None, tx1))
              db)"

definition handleInvoicePaymentFailed :: "Invoice \<Rightarrow> DB \<Rightarrow> error option outcome \<times> DB" where
  "handleInvoicePaymentFailed invoice db =
     (case invoice_Subscription invoice of
        None \<Rightarrow> (Panic, db)
      | Some subscription \<Rightarrow>
          if ssub_ID subscription = []
          then (Return None, db)
          else
            Transaction
              (\<lambda>tx. case Update_Subscription_status (ssub_ID subscription) SubscriptionStatusPastDue tx of
                       (n, tx1) \<Rightarrow> (Return None, tx1))
              db)"

text \<open>
  The dispatch on the event type (step 4 of \<open>PostStripeWebhook\<close>).
\<close>

definition handleEvent :: "Lib \<Rightarrow> uuid \<Rightarrow> Event \<Rightarrow> DB \<Rightarrow> error option outcome \<times> DB" where
  "handleEvent lib newID event db =
     (if ev_Type event = ''checkout.session.completed'' then
        (case lib_UnmarshalSession lib (ev_Data_Raw event) of
           None \<Rightarrow> (Return (Some (HTTPError 400 ''Error parsing webhook payload'')), db)
         | Some session \<Rightarrow> handleCheckoutSessionCompleted lib newID session db)
      else if ev_Type event = ''customer.subscription.updated'' then
        (case lib_UnmarshalSubscription lib (ev_Data_Raw event) of
           None \<Rightarrow> (Return (Some (HTTPError 400 ''Error parsing webhook payload'')), db)
         | Some sub \<Rightarrow> handleSubscriptionUpdated sub db)
      else if ev_Type event = ''customer.subscription.deleted'' then
        (case lib_UnmarshalSubscription lib (ev_Data_Raw event) of
           None \<Rightarrow> (Return (Some (HTTPError 400 ''Error parsing webhook payload'')), db)
         | Some sub \<Rightarrow> handleSubscriptionDeleted sub db)
      else if ev_Type event = ''invoice.paid'' then
        (case lib_UnmarshalInvoice lib (ev_Data_Raw event) of
           None \<Rightarrow> (Return (Some (HTTPError 400 ''Error parsing webhook payload'')), db)
         | Some invoice \<Rightarrow> handleInvoicePaid invoice db)
      else if ev_Type event = ''invoice.payment_failed'' then
        (case lib_UnmarshalInvoice lib (ev_Data_Raw event) of
           None \<Rightarrow> (Return (Some (HTTPError 400 ''Error parsing webhook payload'')), db)
         | Some invoice \<Rightarrow> handleInvoicePaymentFailed invoice db)
      else (Return None, db))"

definition PostStripeWebhook ::
  "Config \<Rightarrow> Lib \<Rightarrow> uuid \<Rightarrow> Request \<Rightarrow> DB \<Rightarrow> (error + Response) outcome \<times> DB" where
  "PostStripeWebhook cfg lib newID req db =
     (case req_Body req of
        None \<Rightarrow> (Return (Inl (HTTPError 500 ''Failed to read request body'')), db)
      | Some payload \<Rightarrow>
          if req_StripeSignature req = []
          then (Return (Inl (HTTPError 400 ''Missing Stripe-Signature header'')), db)
          else if cfg_WebhookSecret cfg = []
          then (Return (Inl (HTTPError 500 ''Webhook configuration error'')), db)
          else
            (case lib_ConstructEvent lib payload (req_StripeSignature req) (cfg_WebhookSecret cfg) of
               Inl msg \<Rightarrow>
                 (Return (Inl (HTTPError 400 (''Webhook signature verification failed: '' @ msg))), db)
             | Inr event \<Rightarrow>
                 if cfg_SecretKey cfg = []
                 then (Return (Inl (HTTPError 500 ''Webhook configuration error'')), db)
                 else
                   (case handleEvent lib newID event db of
                      (Panic, db') \<Rightarrow> (Panic, db')
                    | (Return (Some processingError), db') \<Rightarrow> (Return (Inl processingError), db')
                    | (Return None, db') \<Rightarrow>
                        (Return (Inr \<lparr>r_Success = True, r_Message = ''Webhook received successfully''\<rparr>),
                         db'))))"

section \<open>Sample rows\<close>

definition ex_user :: User where
  "ex_user = \<lparr>usr_ID = 3, usr_Email = ''a@x.com'', usr_DeletedAt = None, usr_StripeCustomerID = None\<rparr>"

definition ex_invitation :: Invitation where
  "ex_invitation = \<lparr>inv_ID = 1, inv_DeletedAt = None, inv_Email = ''a@x.com'', inv_TeamID = 7,
     inv_InviterID = 2, inv_Role = RoleMember, inv_Token = ''K'', inv_Status = StatusPending,
     inv_ExpiresAt = 100\<rparr>"

definition ex_member :: Membership where
  "ex_member = \<lparr>mem_ID = 5, mem_DeletedAt = None, mem_UserID = 3, mem_TeamID = 7, mem_Role = RoleAdmin\<rparr>"

definition ex_owner :: Membership where
  "ex_owner = \<lparr>mem_ID = 4, mem_DeletedAt = None, mem_UserID = 2, mem_TeamID = 7, mem_Role = RoleOwner\<rparr>"

definition ex_db :: DB where
  "ex_db = \<lparr>users = [ex_user], plans = [], subscriptions = [], invitations = [ex_invitation],
     memberships = [ex_owner], stmts = 0\<rparr>"

definition ex_db_member :: DB where
  "ex_db_member = ex_db\<lparr>memberships := [ex_owner, ex_member]\<rparr>"

text \<open>
  Another caller's decline of the invitation, committed in the window between this
  caller's read and its guarded write.
\<close>

definition other_caller_declines :: "uuid \<Rightarrow> DB \<Rightarrow> DB" where
  "other_caller_declines invitationID d = snd (UpdateInvitationStatus id d invitationID StatusDeclined)"

text \<open>
  Another caller's complete \<open>PostAcceptInvitation\<close> request for the sample invitation
  (the invited user in a second session, membership key 8, at time 50), committed in a
  window of this caller's transaction.
\<close>

definition other_caller_accepts :: "DB \<Rightarrow> DB" where
  "other_caller_accepts d =
     snd (PostAcceptInvitation id id 50 8 d (Some (CtxUser (Some ex_user))) ''K'')"

text \<open>
  The statuses the claims allow a stored invitation to have.
\<close>

definition stored_status :: "InvitationStatus \<Rightarrow> bool" where
  "stored_status s \<longleftrightarrow> s = StatusPending \<or> s = StatusAccepted \<or> s = StatusDeclined"

definition statuses_ok :: "DB \<Rightarrow> bool" where
  "statuses_ok db \<longleftrightarrow> list_all (\<lambda>i. stored_status (inv_Status i)) (invitations db)"

text \<open>
  A sample \<open>uuid.Parse\<close>, and the storage before the sample invitation was sent.
\<close>

definition ex_uuid_Parse :: "string \<Rightarrow> uuid option" where
  "ex_uuid_Parse s = (if s = ''7'' then Some 7 else if s = ''1'' then Some 1 else None)"

definition ex_inviter :: User where
  "ex_inviter = \<lparr>usr_ID = 2, usr_Email = ''o@x.com'', usr_DeletedAt = None, usr_StripeCustomerID = None\<rparr>"

definition ex_db_before :: DB where
  "ex_db_before = \<lparr>users = [ex_user], plans = [], subscriptions = [], invitations = [],
     memberships = [ex_owner], stmts = 0\<rparr>"

text \<open>
  Sample billing data: a plan, the provider's detail of subscription "sub_1", a checkout
  session for user 3, an event for a subscription this system has no row for, an
  invoice that is paid and not linked to a subscription, and the libraries.  The sample
  signature check accepts the header "v1=" followed by the secret; the sample event
  takes its type from the payload.
\<close>

definition ex_plan :: Plan where
  "ex_plan = \<lparr>plan_ID = ''pro'', plan_StripePriceID = ''price_m'',
     plan_StripePriceIDYearly = Some ''price_y'', plan_DeletedAt = None\<rparr>"

definition ex_detail :: StripeSubscription where
  "ex_detail = \<lparr>ssub_ID = ''sub_1'', ssub_Status = ''active'',
     ssub_Items = Some [\<lparr>item_Price = Some \<lparr>price_ID = ''price_m''\<rparr>\<rparr>],
     ssub_CurrentPeriodStart = 1000, ssub_CurrentPeriodEnd = 2000, ssub_CancelAtPeriodEnd = False\<rparr>"

definition ex_session :: CheckoutSession where
  "ex_session = \<lparr>cs_ClientReferenceID = ''u3'', cs_Customer = Some \<lparr>cust_ID = ''cus_1''\<rparr>,
     cs_Subscription = Some \<lparr>ssub_ID = ''sub_1'', ssub_Status = [], ssub_Items = None,
       ssub_CurrentPeriodStart = 0, ssub_CurrentPeriodEnd = 0, ssub_CancelAtPeriodEnd = False\<rparr>\<rparr>"

definition ex_unknown_sub :: StripeSubscription where
  "ex_unknown_sub = \<lparr>ssub_ID = ''sub_9'', ssub_Status = ''past_due'',
     ssub_Items = Some [\<lparr>item_Price = Some \<lparr>price_ID = ''price_m''\<rparr>\<rparr>],
     ssub_CurrentPeriodStart = 1000, ssub_CurrentPeriodEnd = 2000, ssub_CancelAtPeriodEnd = False\<rparr>"

definition ex_invoice :: Invoice where
  "ex_invoice = \<lparr>invoice_ID = ''in_1'', invoice_Status = ''paid'', invoice_Subscription = None\<rparr>"

definition ex_lib :: Lib where
  "ex_lib = \<lparr>
     lib_ConstructEvent = (\<lambda>payload signature secret.
        if signature = ''v1='' @ secret
        then Inr \<lparr>ev_Type = payload, ev_ID = ''evt_1'', ev_Data_Raw = []\<rparr>
        else Inl ''signature mismatch''),
     lib_UnmarshalSession = (\<lambda>raw. Some ex_session),
     lib_UnmarshalSubscription = (\<lambda>raw. Some ex_unknown_sub),
     lib_UnmarshalInvoice = (\<lambda>raw. Some ex_invoice),
     lib_subscription_Get = (\<lambda>i. if i = ''sub_1'' then Some ex_detail else None),
     lib_uuid_Parse = (\<lambda>s. if s = ''u3'' then Some 3 else None)\<rparr>"

definition ex_cfg :: Config where
  "ex_cfg = \<lparr>cfg_WebhookSecret = ''whsec'', cfg_SecretKey = ''sk''\<rparr>"

definition ex_request :: "string \<Rightarrow> string \<Rightarrow> Request" where
  "ex_request payload signature = \<lparr>req_Body = Some payload, req_StripeSignature = signature\<rparr>"

definition ex_stored_sub :: Subscription where
  "ex_stored_sub = \<lparr>sub_ID = 11, sub_UserID = 3, sub_PlanID = ''pro'',
     sub_StripeSubscriptionID = ''sub_1'', sub_Status = ''active'',
     sub_CurrentPeriodStart = time_Unix 1000, sub_CurrentPeriodEnd = time_Unix 2000,
     sub_CancelAtPeriodEnd = True\<rparr>"

definition ex_db_billing :: DB where
  "ex_db_billing = \<lparr>users = [ex_user], plans = [ex_plan], subscriptions = [ex_stored_sub],
     invitations = [], memberships = [], stmts = 0\<rparr>"

definition ex_db_unsubscribed :: DB where
  "ex_db_unsubscribed = ex_db_billing\<lparr>subscriptions := []\<rparr>"

text \<open>
  The libraries when the event data is a checkout session whose customer is null.
\<close>

definition ex_lib_nil_customer :: Lib where
  "ex_lib_nil_customer =
     ex_lib\<lparr>lib_UnmarshalSession := (\<lambda>raw. Some (ex_session\<lparr>cs_Customer := None\<rparr>))\<rparr>"


section \<open>Facts about the statements\<close>

lemma tick_tables [simp]:
  "users (tick d) = users d" "plans (tick d) = plans d" "subscriptions (tick d) = subscriptions d"
  "invitations (tick d) = invitations d" "memberships (tick d) = memberships d"
  "stmts (tick d) = Suc (stmts d)"
  by (simp_all add: tick_def)

lemma rollback_tables [simp]:
  "users (rollback s d) = users s" "plans (rollback s d) = plans s"
  "subscriptions (rollback s d) = subscriptions s" "invitations (rollback s d) = invitations s"
  "memberships (rollback s d) = memberships s" "stmts (rollback s d) = stmts d"
  by (simp_all add: rollback_def)

lemma fold_min_in: "fold (\<lambda>x best. if pk x < pk best then x else best) rs r \<in> set (r # rs)"
proof (induction rs arbitrary: r)
  case Nil
  show ?case by simp
next
  case (Cons a rs)
  let ?f = "\<lambda>x best. if pk x < pk best then x else best"
  have "fold ?f rs (?f a r) \<in> set (?f a r # rs)"
    by (rule Cons.IH)
  moreover have "set (?f a r # rs) \<subseteq> set (r # a # rs)" by auto
  ultimately have "fold ?f rs (?f a r) \<in> set (r # a # rs)" by (rule subsetD[rotated])
  then show ?case by simp
qed

lemma First_None_iff: "First pk c rows = None \<longleftrightarrow> (\<forall>x \<in> set rows. \<not> c x)"
proof -
  have "First pk c rows = None \<longleftrightarrow> filter c rows = []"
    by (simp add: First_def split: list.splits)
  then show ?thesis by (simp add: filter_empty_conv)
qed

lemma First_Some_in: "First pk c rows = Some r \<Longrightarrow> r \<in> set rows \<and> c r"
proof -
  assume a: "First pk c rows = Some r"
  show ?thesis
  proof (cases "filter c rows")
    case Nil
    with a show ?thesis by (simp add: First_def)
  next
    case (Cons y ys)
    with a have r: "r = fold (\<lambda>x best. if pk x < pk best then x else best) ys y"
      by (simp add: First_def)
    have "r \<in> set (y # ys)" unfolding r by (rule fold_min_in)
    then have "r \<in> set (filter c rows)" by (simp only: Cons)
    then show ?thesis by simp
  qed
qed

lemma First_unique:
  assumes "r \<in> set rows" "c r" "\<forall>x \<in> set rows. c x \<longrightarrow> x = r"
  shows "First pk c rows = Some r"
proof (cases "First pk c rows")
  case None
  then have "\<forall>x \<in> set rows. \<not> c x" by (simp only: First_None_iff)
  with assms(1,2) show ?thesis by blast
next
  case (Some y)
  then have "y \<in> set rows \<and> c y" by (rule First_Some_in)
  with assms(3) have "y = r" by blast
  with Some show ?thesis by simp
qed

lemma UpdateWhere_zero: "fst (UpdateWhere c f rows) = 0 \<longleftrightarrow> (\<forall>x \<in> set rows. \<not> c x)"
  by (simp add: UpdateWhere_def filter_empty_conv)

lemma UpdateWhere_none: "\<forall>x \<in> set rows. \<not> c x \<Longrightarrow> snd (UpdateWhere c f rows) = rows"
  by (simp add: UpdateWhere_def map_idI)

lemma guarded_status_update_tables [simp]:
  "users (snd (guarded_status_update a s d)) = users d"
  "plans (snd (guarded_status_update a s d)) = plans d"
  "subscriptions (snd (guarded_status_update a s d)) = subscriptions d"
  "memberships (snd (guarded_status_update a s d)) = memberships d"
  "stmts (snd (guarded_status_update a s d)) = Suc (stmts d)"
  by (simp_all add: guarded_status_update_def split: prod.splits)

lemma before_insert_id [simp]: "before_insert id m d = tick d"
  by (simp add: before_insert_def split: option.splits)

lemma FirstOrCreate_Membership_cases:
  assumes "FirstOrCreate_Membership id newID m db = (r, db')"
  shows "users db' = users db \<and> invitations db' = invitations db \<and>
     (memberships db' = memberships db \<and> (\<forall>f. r = Inr f \<longrightarrow> f \<in> set (memberships db)) \<or>
      (\<exists>m1. r = Inr m1 \<and> memberships db' = memberships db @ [m1] \<and> mem_Role m1 = mem_Role m
          \<and> mem_UserID m1 = mem_UserID m \<and> mem_TeamID m1 = mem_TeamID m
          \<and> (\<forall>x \<in> set (memberships db). \<not> (mem_UserID x = mem_UserID m \<and> mem_TeamID x = mem_TeamID m))))"
proof (cases "First mem_ID (\<lambda>x. live_mem x \<and> mem_UserID x = mem_UserID m \<and> mem_TeamID x = mem_TeamID m)
             (memberships db)")
  case (Some found)
  then have "found \<in> set (memberships db)" by (rule First_Some_in[THEN conjunct1])
  with Some assms show ?thesis by (auto simp: FirstOrCreate_Membership_def)
next
  case None
  with assms have c: "Create_Membership newID m (tick db) = (r, db')"
    by (simp add: FirstOrCreate_Membership_def)
  then show ?thesis
    by (auto simp: Create_Membership_def Membership_BeforeCreate_def Let_def
             split: sum.splits if_splits)
qed

lemma AcceptInvitation_memberships:
  assumes "AcceptInvitation id id now newID db userID token = ((mo, fin, err), db')"
  shows "memberships db' = memberships db \<and> (\<forall>f. mo = Some f \<longrightarrow> f \<in> set (memberships db)) \<or>
      (\<exists>invitation m1.
          First inv_ID (\<lambda>i. live_inv i \<and> inv_Token i = token) (invitations db) = Some invitation
          \<and> mo = Some m1 \<and> err = None
          \<and> memberships db' = memberships db @ [m1] \<and> mem_Role m1 = inv_Role invitation
          \<and> mem_UserID m1 = userID \<and> mem_TeamID m1 = inv_TeamID invitation
          \<and> (\<forall>x \<in> set (memberships db). \<not> (mem_UserID x = userID \<and> mem_TeamID x = inv_TeamID invitation)))"
proof (cases "First inv_ID (\<lambda>i. live_inv i \<and> inv_Token i = token) (invitations db)")
  case None
  with assms show ?thesis by (auto simp: AcceptInvitation_def)
next
  case inv: (Some invitation)
  show ?thesis
  proof (cases "inv_Status invitation \<noteq> StatusPending \<or> inv_ExpiresAt invitation < now")
    case True
    with inv assms show ?thesis by (auto simp: AcceptInvitation_def split: if_splits)
  next
    case ok: False
    show ?thesis
    proof (cases "First usr_ID (\<lambda>u. live_usr u \<and> usr_ID u = userID) (users db)")
      case None
      with inv ok assms show ?thesis by (auto simp: AcceptInvitation_def)
    next
      case usr: (Some user)
      show ?thesis
      proof (cases "usr_Email user \<noteq> inv_Email invitation")
        case True
        with inv ok usr assms show ?thesis by (auto simp: AcceptInvitation_def)
      next
        case mail: False
        let ?m = "\<lparr>mem_ID = uuid_Nil, mem_DeletedAt = None, mem_UserID = userID,
                    mem_TeamID = inv_TeamID invitation, mem_Role = inv_Role invitation\<rparr>"
        obtain r db3 where foc: "FirstOrCreate_Membership id newID ?m (tick (tick db)) = (r, db3)"
          by (cases "FirstOrCreate_Membership id newID ?m (tick (tick db))") blast
        note c = FirstOrCreate_Membership_cases[OF foc]
        show ?thesis
        proof (cases r)
          case (Inl e)
          with c have "memberships db3 = memberships db" by auto
          with Inl inv ok usr mail foc assms show ?thesis by (auto simp: AcceptInvitation_def)
        next
          case (Inr membership)
          obtain n db4 where g: "guarded_status_update (inv_ID invitation) StatusAccepted db3 = (n, db4)"
            by (cases "guarded_status_update (inv_ID invitation) StatusAccepted db3") blast
          have m4: "memberships db4 = memberships db3"
            using guarded_status_update_tables(4)[of "inv_ID invitation" StatusAccepted db3] g by simp
          show ?thesis
          proof (cases "n = 0")
            case True
            with inv ok usr mail foc Inr g assms show ?thesis by (auto simp: AcceptInvitation_def)
          next
            case False
            with inv ok usr mail foc Inr g assms
            have r: "mo = Some membership" "err = None" "db' = db4"
              by (auto simp: AcceptInvitation_def)
            from c Inr m4 r inv show ?thesis by auto
          qed
        qed
      qed
    qed
  qed
qed

lemma guarded_zero_invitations:
  "fst (guarded_status_update a s d) = 0 \<Longrightarrow> invitations (snd (guarded_status_update a s d)) = invitations d"
proof -
  assume z: "fst (guarded_status_update a s d) = 0"
  let ?c = "\<lambda>i. live_inv i \<and> inv_ID i = a \<and> inv_Status i = StatusPending"
  from z have "fst (UpdateWhere ?c (\<lambda>i. i\<lparr>inv_Status := s\<rparr>) (invitations d)) = 0"
    by (simp add: guarded_status_update_def split: prod.splits)
  then have "\<forall>x \<in> set (invitations d). \<not> ?c x" by (simp only: UpdateWhere_zero)
  then have "snd (UpdateWhere ?c (\<lambda>i. i\<lparr>inv_Status := s\<rparr>) (invitations d)) = invitations d"
    by (rule UpdateWhere_none)
  then show ?thesis by (simp add: guarded_status_update_def case_prod_beta)
qed



section \<open>Accepting an expired invitation\<close>

text \<open>
  Claim C3.  For every stored pending invitation whose expiry lies in the past,
  \<open>AcceptInvitation\<close> returns the error "invitation has expired" (the handler answers
  400 "This invitation has expired"), and the call leaves the invitation table and the
  membership table as they were: the status is not set to accepted and no membership
  row is created.
\<close>

theorem expired_accept_leaves_rows:
  assumes "invitation \<in> set (invitations db)" "live_inv invitation" "inv_Token invitation = token"
    and "\<forall>x \<in> set (invitations db). live_inv x \<and> inv_Token x = token \<longrightarrow> x = invitation"
    and "inv_Status invitation = StatusPending" "inv_ExpiresAt invitation < now"
  shows "fst (AcceptInvitation raceI race now newID db userID token)
           = (None, invitation, Some (ErrorsNew ''invitation has expired''))
       \<and> invitations (snd (AcceptInvitation raceI race now newID db userID token)) = invitations db
       \<and> memberships (snd (AcceptInvitation raceI race now newID db userID token)) = memberships db
       \<and> (token \<noteq> [] \<longrightarrow>
            fst (PostAcceptInvitation raceI race now newID db (Some (CtxUser (Some u))) token)
              = Inl (HTTPError 400 ''This invitation has expired'')
          \<and> invitations (snd (PostAcceptInvitation raceI race now newID db (Some (CtxUser (Some u))) token))
              = invitations db
          \<and> memberships (snd (PostAcceptInvitation raceI race now newID db (Some (CtxUser (Some u))) token))
              = memberships db)"
proof -
  have f: "First inv_ID (\<lambda>i. live_inv i \<and> inv_Token i = token) (invitations db) = Some invitation"
  proof (rule First_unique)
    show "invitation \<in> set (invitations db)" by (rule assms(1))
    show "live_inv invitation \<and> inv_Token invitation = token" using assms(2,3) by simp
    show "\<forall>x \<in> set (invitations db). live_inv x \<and> inv_Token x = token \<longrightarrow> x = invitation"
      by (rule assms(4))
  qed
  have a: "\<And>uid. AcceptInvitation raceI race now newID db uid token
           = ((None, invitation, Some (ErrorsNew ''invitation has expired'')), tick db)"
    using f assms(5,6) by (simp add: AcceptInvitation_def)
  show ?thesis by (simp add: a PostAcceptInvitation_def)
qed

text \<open>Witness for C3: the sample invitation expires at 100, the call is made at 200.\<close>

theorem expired_accept_witness:
  "fst (AcceptInvitation id id 200 9 ex_db 3 ''K'')
      = (None, ex_invitation, Some (ErrorsNew ''invitation has expired''))
   \<and> invitations (snd (AcceptInvitation id id 200 9 ex_db 3 ''K'')) = [ex_invitation]
   \<and> memberships (snd (AcceptInvitation id id 200 9 ex_db 3 ''K'')) = [ex_owner]
   \<and> fst (PostAcceptInvitation id id 200 9 ex_db (Some (CtxUser (Some ex_user))) ''K'')
        = Inl (HTTPError 400 ''This invitation has expired'')"
proof -
  have h1: "ex_invitation \<in> set (invitations ex_db)" by (simp add: ex_db_def)
  have h2: "live_inv ex_invitation" by (simp add: live_inv_def ex_invitation_def)
  have h3: "inv_Token ex_invitation = ''K''" by (simp add: ex_invitation_def)
  have h4: "\<forall>x \<in> set (invitations ex_db). live_inv x \<and> inv_Token x = ''K'' \<longrightarrow> x = ex_invitation"
    by (simp add: ex_db_def)
  have h5: "inv_Status ex_invitation = StatusPending" by (simp add: ex_invitation_def)
  have h6: "inv_ExpiresAt ex_invitation < 200" by (simp add: ex_invitation_def)
  show ?thesis
    using expired_accept_leaves_rows[OF h1 h2 h3 h4 h5 h6,
            where raceI = id and race = id and newID = 9 and userID = 3 and u = ex_user]
    by (simp add: ex_db_def)
qed


section \<open>Accepting when the membership exists already\<close>

text \<open>
  Claim C10.  When a membership row for (acting user, team of the invitation) exists
  already, \<open>AcceptInvitation\<close> leaves the membership table as it is, so the row keeps
  its role whatever role the invitation offers, and the membership the call returns is
  a stored row.  The table changes only by the insertion of one new row, and that row
  carries the offered role.
\<close>

theorem accept_keeps_existing_membership:
  assumes "First inv_ID (\<lambda>i. live_inv i \<and> inv_Token i = token) (invitations db) = Some invitation"
  shows "((\<exists>m \<in> set (memberships db). mem_UserID m = userID \<and> mem_TeamID m = inv_TeamID invitation) \<longrightarrow>
            memberships (snd (AcceptInvitation id id now newID db userID token)) = memberships db
          \<and> (\<forall>f. fst (fst (AcceptInvitation id id now newID db userID token)) = Some f
                 \<longrightarrow> f \<in> set (memberships db)))
       \<and> (memberships (snd (AcceptInvitation id id now newID db userID token)) \<noteq> memberships db \<longrightarrow>
            (\<exists>m1. memberships (snd (AcceptInvitation id id now newID db userID token)) = memberships db @ [m1]
               \<and> fst (fst (AcceptInvitation id id now newID db userID token)) = Some m1
               \<and> mem_Role m1 = inv_Role invitation
               \<and> mem_UserID m1 = userID \<and> mem_TeamID m1 = inv_TeamID invitation))"
proof -
  obtain mo fin err db' where a: "AcceptInvitation id id now newID db userID token = ((mo, fin, err), db')"
    by (metis prod.exhaust)
  from AcceptInvitation_memberships[OF a] assms show ?thesis
    unfolding a by fastforce
qed

text \<open>
  Witness for C10: the acting user is an admin of the team already and the invitation
  offers the member role; the stored row is returned and keeps the admin role.
\<close>

theorem accept_keeps_existing_membership_witness:
  "memberships (snd (AcceptInvitation id id 50 9 ex_db_member 3 ''K'')) = [ex_owner, ex_member]
   \<and> fst (fst (AcceptInvitation id id 50 9 ex_db_member 3 ''K'')) = Some ex_member
   \<and> mem_Role ex_member = RoleAdmin \<and> inv_Role ex_invitation = RoleMember"
proof -
  have h: "First inv_ID (\<lambda>i. live_inv i \<and> inv_Token i = ''K'') (invitations ex_db_member)
             = Some ex_invitation"
    by code_simp
  have e: "\<exists>m \<in> set (memberships ex_db_member). mem_UserID m = 3 \<and> mem_TeamID m = inv_TeamID ex_invitation"
    by code_simp
  have r: "fst (fst (AcceptInvitation id id 50 9 ex_db_member 3 ''K'')) = Some ex_member"
    by code_simp
  have m: "memberships ex_db_member = [ex_owner, ex_member]"
    by code_simp
  have "memberships (snd (AcceptInvitation id id 50 9 ex_db_member 3 ''K'')) = memberships ex_db_member"
    using accept_keeps_existing_membership[OF h, of 3 50 9] e by blast
  with r m show ?thesis by (simp add: ex_member_def ex_invitation_def)
qed

section \<open>The guarded write that affects zero rows\<close>

text \<open>
  Claim C1, amended.  When the guarded write affects zero rows, the operation re-reads
  the invitation.  On the decline path \<open>UpdateInvitationStatus\<close> returns the error
  "invitation status changed unexpectedly" together with the row it re-read (when the
  row is gone: its struct, with the status the update has set in memory), and the
  handler answers 409 Conflict whatever the state read, also when it is the target
  state: there is no idempotent success.  On the accept path, when the re-read finds
  the invitation accepted, the handler answers success carrying that row, and the
  call's own transaction is rolled back.
\<close>

theorem zero_rows_outcomes:
  assumes tok: "token \<noteq> []"
    and byTok: "First inv_ID (\<lambda>i. live_inv i \<and> inv_Token i = token) (invitations db) = Some invitation"
    and byID: "First inv_ID (\<lambda>i. live_inv i \<and> inv_ID i = inv_ID invitation) (invitations db) = Some invitation"
    and pend: "inv_Status invitation = StatusPending"
    and notexp: "\<not> inv_ExpiresAt invitation < now"
    and usr: "First usr_ID (\<lambda>u. live_usr u \<and> usr_ID u = usr_ID user) (users db) = Some user"
    and mail: "usr_Email user = inv_Email invitation"
  shows "(fst (guarded_status_update (inv_ID invitation) StatusDeclined (race (tick (tick (tick db))))) = 0 \<longrightarrow>
            fst (UpdateInvitationStatus race (tick (tick db)) (inv_ID invitation) StatusDeclined)
              = (Some (case First inv_ID (\<lambda>i. live_inv i \<and> inv_ID i = inv_ID invitation)
                              (invitations (race (tick (tick (tick db))))) of
                         None \<Rightarrow> invitation\<lparr>inv_Status := StatusDeclined\<rparr> | Some i \<Rightarrow> i),
                 Some (ErrorsNew ''invitation status changed unexpectedly''))
          \<and> fst (PostDeclineInvitation race now db (Some (CtxUser (Some user))) token)
              = Inl (HTTPError 409 ''Invitation status changed unexpectedly''))
       \<and> (\<forall>m db3 observed.
            FirstOrCreate_Membership id newID
              \<lparr>mem_ID = uuid_Nil, mem_DeletedAt = None, mem_UserID = usr_ID user,
               mem_TeamID = inv_TeamID invitation, mem_Role = inv_Role invitation\<rparr>
              (tick (tick db)) = (Inr m, db3)
            \<and> fst (guarded_status_update (inv_ID invitation) StatusAccepted (race db3)) = 0
            \<and> First inv_ID (\<lambda>i. live_inv i \<and> inv_Token i = token \<and> inv_ID i = inv_ID invitation)
                 (invitations (race db3)) = Some observed
            \<and> inv_Status observed = StatusAccepted \<longrightarrow>
              fst (PostAcceptInvitation id race now newID db (Some (CtxUser (Some user))) token)
                = Inr \<lparr>resp_Success = True, resp_Message = ''Invitation accepted successfully'',
                       resp_Invitation = respInvitation observed\<rparr>
            \<and> memberships (snd (PostAcceptInvitation id race now newID db (Some (CtxUser (Some user))) token))
                = memberships (race (tick (tick (tick db)))))"
proof (intro conjI impI allI)
  assume z: "fst (guarded_status_update (inv_ID invitation) StatusDeclined (race (tick (tick (tick db))))) = 0"
  have ne: "StatusPending \<noteq> StatusDeclined" by (simp add: StatusPending_def StatusDeclined_def)
  obtain n db2 where g: "guarded_status_update (inv_ID invitation) StatusDeclined (race (tick (tick (tick db)))) = (n, db2)"
    by (metis prod.exhaust)
  with z have n: "n = 0" by simp
  from guarded_zero_invitations[OF z] g have i2: "invitations db2 = invitations (race (tick (tick (tick db))))"
    by simp
  show u: "fst (UpdateInvitationStatus race (tick (tick db)) (inv_ID invitation) StatusDeclined)
              = (Some (case First inv_ID (\<lambda>i. live_inv i \<and> inv_ID i = inv_ID invitation)
                              (invitations (race (tick (tick (tick db))))) of
                         None \<Rightarrow> invitation\<lparr>inv_Status := StatusDeclined\<rparr> | Some i \<Rightarrow> i),
                 Some (ErrorsNew ''invitation status changed unexpectedly''))"
    using byID pend ne g n i2 by (simp add: UpdateInvitationStatus_def)
  show "fst (PostDeclineInvitation race now db (Some (CtxUser (Some user))) token)
              = Inl (HTTPError 409 ''Invitation status changed unexpectedly'')"
    using tok byTok pend notexp mail u
    by (simp add: PostDeclineInvitation_def FindInvitationByTokenWithTeam_def case_prod_beta)
next
  fix m db3 observed
  assume a: "FirstOrCreate_Membership id newID
              \<lparr>mem_ID = uuid_Nil, mem_DeletedAt = None, mem_UserID = usr_ID user,
               mem_TeamID = inv_TeamID invitation, mem_Role = inv_Role invitation\<rparr>
              (tick (tick db)) = (Inr m, db3)
            \<and> fst (guarded_status_update (inv_ID invitation) StatusAccepted (race db3)) = 0
            \<and> First inv_ID (\<lambda>i. live_inv i \<and> inv_Token i = token \<and> inv_ID i = inv_ID invitation)
                 (invitations (race db3)) = Some observed
            \<and> inv_Status observed = StatusAccepted"
  then have foc: "FirstOrCreate_Membership id newID
              \<lparr>mem_ID = uuid_Nil, mem_DeletedAt = None, mem_UserID = usr_ID user,
               mem_TeamID = inv_TeamID invitation, mem_Role = inv_Role invitation\<rparr>
              (tick (tick db)) = (Inr m, db3)"
    and z: "fst (guarded_status_update (inv_ID invitation) StatusAccepted (race db3)) = 0"
    and re: "First inv_ID (\<lambda>i. live_inv i \<and> inv_Token i = token \<and> inv_ID i = inv_ID invitation)
                 (invitations (race db3)) = Some observed"
    by simp_all
  obtain n db4 where g: "guarded_status_update (inv_ID invitation) StatusAccepted (race db3) = (n, db4)"
    by (metis prod.exhaust)
  with z have n: "n = 0" by simp
  from guarded_zero_invitations[OF z] g have i4: "invitations db4 = invitations (race db3)"
    by simp
  have acc: "AcceptInvitation id race now newID db (usr_ID user) token =
     ((None, observed,
       Some (ErrorsNew ''failed to update invitation status, it might have been accepted or declined already'')),
      rollback (race (tick (tick (tick db)))) (tick db4))"
    using byTok pend notexp usr mail foc g n i4 re by (simp add: AcceptInvitation_def)
  show "fst (PostAcceptInvitation id race now newID db (Some (CtxUser (Some user))) token)
                = Inr \<lparr>resp_Success = True, resp_Message = ''Invitation accepted successfully'',
                       resp_Invitation = respInvitation observed\<rparr>"
    using tok by (simp add: PostAcceptInvitation_def acc)
  show "memberships (snd (PostAcceptInvitation id race now newID db (Some (CtxUser (Some user))) token))
                = memberships (race (tick (tick (tick db))))"
    using tok by (simp add: PostAcceptInvitation_def acc)
qed

text \<open>
  Witness for C1 as amended.  Decline: another caller declines the sample invitation
  between the read and the guarded write.  Accept: the acting user is a member
  already, and the user's second session accepts the invitation between this call's
  membership step and its guarded write.
\<close>

theorem zero_rows_outcomes_witness:
  "fst (PostDeclineInvitation (other_caller_declines 1) 50 ex_db (Some (CtxUser (Some ex_user))) ''K'')
     = Inl (HTTPError 409 ''Invitation status changed unexpectedly'')
   \<and> fst (PostAcceptInvitation id other_caller_accepts 50 9 ex_db_member
            (Some (CtxUser (Some ex_user))) ''K'')
     = Inr \<lparr>resp_Success = True, resp_Message = ''Invitation accepted successfully'',
            resp_Invitation = respInvitation (ex_invitation\<lparr>inv_Status := StatusAccepted\<rparr>)\<rparr>"
proof -
  have h1: "''K'' \<noteq> []" by simp
  have h2: "First inv_ID (\<lambda>i. live_inv i \<and> inv_Token i = ''K'') (invitations ex_db) = Some ex_invitation"
    by code_simp
  have h3: "First inv_ID (\<lambda>i. live_inv i \<and> inv_ID i = inv_ID ex_invitation) (invitations ex_db)
              = Some ex_invitation"
    by code_simp
  have h4: "inv_Status ex_invitation = StatusPending" by code_simp
  have h5: "\<not> inv_ExpiresAt ex_invitation < 50" by code_simp
  have h6: "First usr_ID (\<lambda>u. live_usr u \<and> usr_ID u = usr_ID ex_user) (users ex_db) = Some ex_user"
    by code_simp
  have h7: "usr_Email ex_user = inv_Email ex_invitation" by code_simp
  have z1: "fst (guarded_status_update (inv_ID ex_invitation) StatusDeclined
                  (other_caller_declines 1 (tick (tick (tick ex_db))))) = 0"
    by code_simp
  have d: "fst (PostDeclineInvitation (other_caller_declines 1) 50 ex_db
                            (Some (CtxUser (Some ex_user))) ''K'')
                       = Inl (HTTPError 409 ''Invitation status changed unexpectedly'')"
    using zero_rows_outcomes[OF h1 h2 h3 h4 h5 h6 h7, where race = "other_caller_declines 1"] z1
    by blast
  have k2: "First inv_ID (\<lambda>i. live_inv i \<and> inv_Token i = ''K'') (invitations ex_db_member)
              = Some ex_invitation"
    by code_simp
  have k3: "First inv_ID (\<lambda>i. live_inv i \<and> inv_ID i = inv_ID ex_invitation) (invitations ex_db_member)
              = Some ex_invitation"
    by code_simp
  have k6: "First usr_ID (\<lambda>u. live_usr u \<and> usr_ID u = usr_ID ex_user) (users ex_db_member) = Some ex_user"
    by code_simp
  have foc: "FirstOrCreate_Membership id 9
               \<lparr>mem_ID = uuid_Nil, mem_DeletedAt = None, mem_UserID = usr_ID ex_user,
                mem_TeamID = inv_TeamID ex_invitation, mem_Role = inv_Role ex_invitation\<rparr>
               (tick (tick ex_db_member))
             = (Inr ex_member, tick (tick (tick ex_db_member)))"
    by code_simp
  have z2: "fst (guarded_status_update (inv_ID ex_invitation) StatusAccepted
                  (other_caller_accepts (tick (tick (tick ex_db_member))))) = 0"
    by code_simp
  have re: "First inv_ID (\<lambda>i. live_inv i \<and> inv_Token i = ''K'' \<and> inv_ID i = inv_ID ex_invitation)
              (invitations (other_caller_accepts (tick (tick (tick ex_db_member)))))
            = Some (ex_invitation\<lparr>inv_Status := StatusAccepted\<rparr>)"
    by code_simp
  have st: "inv_Status (ex_invitation\<lparr>inv_Status := StatusAccepted\<rparr>) = StatusAccepted" by simp
  have a: "fst (PostAcceptInvitation id other_caller_accepts 50 9 ex_db_member
            (Some (CtxUser (Some ex_user))) ''K'')
     = Inr \<lparr>resp_Success = True, resp_Message = ''Invitation accepted successfully'',
            resp_Invitation = respInvitation (ex_invitation\<lparr>inv_Status := StatusAccepted\<rparr>)\<rparr>"
    using zero_rows_outcomes[OF h1 k2 k3 h4 h5 k6 h7, where race = other_caller_accepts and newID = 9]
      foc z2 re st
    by blast
  from d a show ?thesis by (rule conjI)
qed

text \<open>
  Counterexample to C1 as stated.  Two callers decline the sample invitation at once:
  the second finds zero rows to write, re-reads the status "declined", which is its own
  target, and is answered 409 Conflict, not success.  A caller who accepts while
  another declines re-reads the status "declined", which is not its target, and is
  answered success carrying that status, not Conflict.
\<close>

theorem zero_rows_classification_counterexample:
  "fst (PostDeclineInvitation (other_caller_declines 1) 50 ex_db (Some (CtxUser (Some ex_user))) ''K'')
     = Inl (HTTPError 409 ''Invitation status changed unexpectedly'')
   \<and> map inv_Status (invitations (snd (PostDeclineInvitation (other_caller_declines 1) 50 ex_db
        (Some (CtxUser (Some ex_user))) ''K''))) = [StatusDeclined]
   \<and> fst (PostAcceptInvitation id (other_caller_declines 1) 50 9 ex_db (Some (CtxUser (Some ex_user))) ''K'')
     = Inr \<lparr>resp_Success = True, resp_Message = ''Invitation accepted successfully'',
            resp_Invitation = respInvitation (ex_invitation\<lparr>inv_Status := StatusDeclined\<rparr>)\<rparr>
   \<and> StatusDeclined \<noteq> StatusAccepted"
  by code_simp

section \<open>Two callers accepting at once\<close>

text \<open>
  Claim C2 fails on the code when the other caller's accept is committed between the
  SELECT and the INSERT of this caller's \<open>FirstOrCreate\<close>.  The other caller makes the
  fresh transition and its membership row is the only one for (user, team), as the claim
  says.  But this caller's INSERT violates the index \<open>idx_user_team\<close>: the call returns
  that error with the invitation as first read (pending), the transaction is rolled
  back, and the handler answers 500; the caller does not observe the accepted state.
\<close>

theorem concurrent_accept_loser_duplicate_key:
  "fst (PostAcceptInvitation id id 50 8 (tick (tick (tick ex_db))) (Some (CtxUser (Some ex_user))) ''K'')
     = Inr \<lparr>resp_Success = True, resp_Message = ''Invitation accepted successfully'',
            resp_Invitation = respInvitation (ex_invitation\<lparr>inv_Status := StatusAccepted\<rparr>)\<rparr>
   \<and> fst (AcceptInvitation other_caller_accepts id 50 9 ex_db 3 ''K'')
     = (None, ex_invitation, Some ErrDuplicatedKey)
   \<and> inv_Status ex_invitation = StatusPending
   \<and> fst (PostAcceptInvitation other_caller_accepts id 50 9 ex_db (Some (CtxUser (Some ex_user))) ''K'')
     = Inl (HTTPError 500 ''Failed to accept invitation'')
   \<and> memberships (snd (PostAcceptInvitation other_caller_accepts id 50 9 ex_db
        (Some (CtxUser (Some ex_user))) ''K''))
     = [ex_owner, \<lparr>mem_ID = 8, mem_DeletedAt = None, mem_UserID = 3, mem_TeamID = 7,
                    mem_Role = RoleMember\<rparr>]
   \<and> map inv_Status (invitations (snd (PostAcceptInvitation other_caller_accepts id 50 9 ex_db
        (Some (CtxUser (Some ex_user))) ''K''))) = [StatusAccepted]"
  by code_simp


section \<open>The statuses a stored invitation can have\<close>

lemma statuses_ok_cong: "invitations a = invitations b \<Longrightarrow> statuses_ok a = statuses_ok b"
  by (simp add: statuses_ok_def)

lemma statuses_ok_tick [simp]: "statuses_ok (tick d) = statuses_ok d"
  by (simp add: statuses_ok_def)

lemma statuses_ok_rollback [simp]: "statuses_ok (rollback s d) = statuses_ok s"
  by (simp add: statuses_ok_def)

lemma statuses_ok_UpdateWhere:
  assumes "list_all (\<lambda>i. stored_status (inv_Status i)) rows"
    and "\<And>i. stored_status (inv_Status i) \<Longrightarrow> stored_status (inv_Status (f i))"
  shows "list_all (\<lambda>i. stored_status (inv_Status i)) (snd (UpdateWhere c f rows))"
  using assms by (induction rows) (simp_all add: UpdateWhere_def)

lemma statuses_ok_guarded:
  assumes "guarded_status_update a s d = (n, d')" "statuses_ok d" "stored_status s"
  shows "statuses_ok d'"
proof -
  let ?c = "\<lambda>i. live_inv i \<and> inv_ID i = a \<and> inv_Status i = StatusPending"
  have "invitations d' = snd (UpdateWhere ?c (\<lambda>i. i\<lparr>inv_Status := s\<rparr>) (invitations d))"
    using assms(1) by (auto simp: guarded_status_update_def split: prod.splits)
  moreover have "list_all (\<lambda>i. stored_status (inv_Status i))
                   (snd (UpdateWhere ?c (\<lambda>i. i\<lparr>inv_Status := s\<rparr>) (invitations d)))"
    using assms(2,3) by (intro statuses_ok_UpdateWhere) (simp_all add: statuses_ok_def)
  ultimately show ?thesis by (simp add: statuses_ok_def)
qed

lemma statuses_ok_FirstOrCreate_Membership:
  assumes "FirstOrCreate_Membership id newID m d = (r, d')"
  shows "statuses_ok d' = statuses_ok d"
  using FirstOrCreate_Membership_cases[OF assms] by (simp add: statuses_ok_def)

lemma statuses_ok_AcceptInvitation:
  assumes "AcceptInvitation id id now newID db userID token = (res, db')" "statuses_ok db"
  shows "statuses_ok db'"
proof -
  have acc: "stored_status StatusAccepted" by (simp add: stored_status_def)
  show ?thesis
    using assms acc
    by (auto simp: AcceptInvitation_def
             split: option.splits if_splits prod.splits sum.splits
             dest: statuses_ok_guarded statuses_ok_FirstOrCreate_Membership)
qed

lemma statuses_ok_UpdateInvitationStatus:
  assumes "UpdateInvitationStatus id db a s = (res, db')" "statuses_ok db" "stored_status s"
  shows "statuses_ok db'"
  using assms
  by (auto simp: UpdateInvitationStatus_def
           split: option.splits if_splits prod.splits
           dest: statuses_ok_guarded)

lemma statuses_ok_PostAcceptInvitation:
  assumes "PostAcceptInvitation id id now newID db c token = (r, db')" "statuses_ok db"
  shows "statuses_ok db'"
  using assms
  by (auto simp: PostAcceptInvitation_def
           split: option.splits if_splits prod.splits ctx_value.splits
           dest: statuses_ok_AcceptInvitation)

lemma statuses_ok_PostDeclineInvitation:
  assumes "PostDeclineInvitation id now db c token = (r, db')" "statuses_ok db"
  shows "statuses_ok db'"
proof -
  have d: "stored_status StatusDeclined" by (simp add: stored_status_def)
  have u: "\<And>d1 a res d2. UpdateInvitationStatus id d1 a StatusDeclined = (res, d2) \<Longrightarrow> statuses_ok d1
             \<Longrightarrow> statuses_ok d2"
    using d by (rule statuses_ok_UpdateInvitationStatus[rotated 2])
  show ?thesis
    using assms
    by (auto simp: PostDeclineInvitation_def FindInvitationByTokenWithTeam_def
             split: option.splits if_splits prod.splits ctx_value.splits sum.splits
             dest: u)
qed

lemma DeleteInvitation_statuses:
  assumes "DeleteInvitation now db a = (e, db')"
  shows "map inv_Status (invitations db') = map inv_Status (invitations db)"
  using assms
  by (auto simp: DeleteInvitation_def UpdateWhere_def split: option.splits if_splits)

lemma statuses_ok_map: "map inv_Status (invitations a) = map inv_Status (invitations b)
    \<Longrightarrow> statuses_ok a = statuses_ok b"
proof -
  assume "map inv_Status (invitations a) = map inv_Status (invitations b)"
  then have "list_all stored_status (map inv_Status (invitations a))
           = list_all stored_status (map inv_Status (invitations b))" by simp
  then show ?thesis by (simp add: statuses_ok_def list_all_iff)
qed

lemma FindMembershipByUserAndTeam_db: "snd (FindMembershipByUserAndTeam db u t) = tick db"
  by (simp add: FindMembershipByUserAndTeam_def split: option.splits)

lemma FindInvitationByIDAndTeam_db: "snd (FindInvitationByIDAndTeam db a t) = tick db"
  by (simp add: FindInvitationByIDAndTeam_def split: option.splits)

lemma FindUserByEmail_db: "snd (FindUserByEmail db e) = tick db"
  by (simp add: FindUserByEmail_def split: option.splits)

lemma FindPendingInvitationByTeamAndEmail_db: "snd (FindPendingInvitationByTeamAndEmail db t e) = tick db"
  by (simp add: FindPendingInvitationByTeamAndEmail_def split: option.splits)

lemma FindMembershipByUserAndTeam_eq: "FindMembershipByUserAndTeam db u t = (r, d1) \<Longrightarrow> d1 = tick db"
  using FindMembershipByUserAndTeam_db[of db u t] by simp

lemma FindInvitationByIDAndTeam_eq: "FindInvitationByIDAndTeam db a t = (r, d1) \<Longrightarrow> d1 = tick db"
  using FindInvitationByIDAndTeam_db[of db a t] by simp

lemma FindUserByEmail_eq: "FindUserByEmail db e = (r, d1) \<Longrightarrow> d1 = tick db"
  using FindUserByEmail_db[of db e] by simp

lemma FindPendingInvitationByTeamAndEmail_eq:
  "FindPendingInvitationByTeamAndEmail db t e = (r, d1) \<Longrightarrow> d1 = tick db"
  using FindPendingInvitationByTeamAndEmail_db[of db t e] by simp

lemma DeleteCancelInvitation_statuses:
  assumes "DeleteCancelInvitation uuid_Parse now db c team invitation = (r, db')"
  shows "map inv_Status (invitations db') = map inv_Status (invitations db)"
  using assms
  by (auto simp: DeleteCancelInvitation_def
           split: option.splits if_splits prod.splits ctx_value.splits sum.splits
           dest!: FindMembershipByUserAndTeam_eq FindInvitationByIDAndTeam_eq
                  DeleteInvitation_statuses)

lemma CreateInvitation_statuses:
  assumes "CreateInvitation now newID newToken db iv = (r, db')" "inv_Status iv = StatusPending"
    "statuses_ok db"
  shows "statuses_ok db'"
  using assms
  by (auto simp: CreateInvitation_def Invitation_BeforeCreate_def Let_def statuses_ok_def
                 stored_status_def StatusPending_def
           split: option.splits if_splits sum.splits)

lemma statuses_ok_PostInviteMember:
  assumes "PostInviteMember uuid_Parse now newID newToken db c team email role = (r, db')"
    "statuses_ok db"
  shows "statuses_ok db'"
  using assms
  by (auto simp: PostInviteMember_def
           split: option.splits if_splits prod.splits ctx_value.splits sum.splits
           dest!: FindMembershipByUserAndTeam_eq FindUserByEmail_eq
                  FindPendingInvitationByTeamAndEmail_eq
           dest: CreateInvitation_statuses)

lemma reachable_statuses_ok: "reachable db \<Longrightarrow> statuses_ok db"
proof (induction rule: reachable.induct)
  case reach_init
  show ?case by (simp add: statuses_ok_def)
next
  case (reach_other db db')
  then show ?case by (simp add: statuses_ok_cong[of db' db])
next
  case (reach_invite db uuid_Parse now newID newToken c team email role r db')
  then show ?case by (blast intro: statuses_ok_PostInviteMember)
next
  case (reach_accept db now newID c token r db')
  then show ?case by (blast intro: statuses_ok_PostAcceptInvitation)
next
  case (reach_decline db now c token r db')
  then show ?case by (blast intro: statuses_ok_PostDeclineInvitation)
next
  case (reach_cancel db uuid_Parse now c team invitation r db')
  from reach_cancel(2) have "map inv_Status (invitations db') = map inv_Status (invitations db)"
    by (rule DeleteCancelInvitation_statuses)
  then have "statuses_ok db' = statuses_ok db" by (rule statuses_ok_map)
  with reach_cancel(3) show ?case by simp
qed

lemma DeleteInvitation_soft:
  assumes "DeleteInvitation now db a = (None, db')"
  shows "invitations db' = map (\<lambda>i. if live_inv i \<and> inv_ID i = a then i\<lparr>inv_DeletedAt := Some now\<rparr> else i)
                               (invitations db)
         \<and> (\<exists>i \<in> set (invitations db). live_inv i \<and> inv_ID i = a)"
proof (cases "First inv_ID (\<lambda>i. live_inv i \<and> inv_ID i = a) (invitations db)")
  case None
  with assms show ?thesis by (simp add: DeleteInvitation_def)
next
  case (Some invitation)
  from First_Some_in[OF Some] have i: "invitation \<in> set (invitations db)" "live_inv invitation"
    "inv_ID invitation = a" by simp_all
  from Some i(3) assms have "invitations db' =
      snd (UpdateWhere (\<lambda>i. live_inv i \<and> inv_ID i = a) (\<lambda>i. i\<lparr>inv_DeletedAt := Some now\<rparr>) (invitations db))"
    by (auto simp: DeleteInvitation_def split: prod.splits if_splits)
  then have "invitations db' = map (\<lambda>i. if live_inv i \<and> inv_ID i = a then i\<lparr>inv_DeletedAt := Some now\<rparr> else i)
                               (invitations db)"
    by (simp add: UpdateWhere_def)
  with i show ?thesis by blast
qed

lemma DeleteCancelInvitation_soft:
  assumes "DeleteCancelInvitation uuid_Parse now db c team invitation = (Inr resp, db')"
  shows "\<exists>a. uuid_Parse invitation = Some a
           \<and> invitations db' = map (\<lambda>i. if live_inv i \<and> inv_ID i = a then i\<lparr>inv_DeletedAt := Some now\<rparr> else i)
                               (invitations db)
           \<and> (\<exists>i \<in> set (invitations db). live_inv i \<and> inv_ID i = a \<and> inv_Status i = StatusPending)"
proof -
  from assms obtain a t u m d1 iv d2 where
    p: "uuid_Parse invitation = Some a" "uuid_Parse team = Some t"
    and f: "FindInvitationByIDAndTeam d1 a t = (Inr iv, d2)" "inv_Status iv = StatusPending"
    and d1: "invitations d1 = invitations db"
    and del: "DeleteInvitation now d2 (inv_ID iv) = (None, db')"
    by (auto simp: DeleteCancelInvitation_def
           split: option.splits if_splits prod.splits ctx_value.splits sum.splits
           dest!: FindMembershipByUserAndTeam_eq)
  from f(1) have d2: "d2 = tick d1" by (rule FindInvitationByIDAndTeam_eq)
  from f(1) have "First inv_ID (\<lambda>i. live_inv i \<and> inv_ID i = a \<and> inv_TeamID i = t) (invitations d1) = Some iv"
    by (auto simp: FindInvitationByIDAndTeam_def split: option.splits)
  from First_Some_in[OF this] have iv: "iv \<in> set (invitations d1)" "live_inv iv" "inv_ID iv = a"
    by simp_all
  from DeleteInvitation_soft[OF del] iv(3) d2 d1
  have "invitations db' = map (\<lambda>i. if live_inv i \<and> inv_ID i = a then i\<lparr>inv_DeletedAt := Some now\<rparr> else i)
                               (invitations db)"
    by simp
  moreover from iv f(2) d1 have "\<exists>i \<in> set (invitations db). live_inv i \<and> inv_ID i = a \<and> inv_Status i = StatusPending"
    by auto
  ultimately show ?thesis using p(1) by blast
qed

text \<open>
  Claim C9.  In every reachable storage state, the status of every invitation row
  (soft-deleted rows included) is pending, accepted or declined; it is never
  "cancelled" and never "expired".  A cancellation that succeeds sets \<open>DeletedAt\<close> on
  the live rows with the invitation's id, one of which is pending, and changes no
  other column of any row.
\<close>

theorem stored_statuses_invariant:
  assumes "reachable db"
  shows "(\<forall>i \<in> set (invitations db).
            (inv_Status i = StatusPending \<or> inv_Status i = StatusAccepted \<or> inv_Status i = StatusDeclined)
            \<and> inv_Status i \<noteq> ''cancelled'' \<and> inv_Status i \<noteq> StatusExpired)
       \<and> (\<forall>uuid_Parse now c team invitation resp db'.
            DeleteCancelInvitation uuid_Parse now db c team invitation = (Inr resp, db') \<longrightarrow>
            (\<exists>a. uuid_Parse invitation = Some a
               \<and> invitations db' =
                   map (\<lambda>i. if live_inv i \<and> inv_ID i = a then i\<lparr>inv_DeletedAt := Some now\<rparr> else i)
                     (invitations db)
               \<and> (\<exists>i \<in> set (invitations db). live_inv i \<and> inv_ID i = a \<and> inv_Status i = StatusPending)))"
proof (intro conjI ballI allI impI)
  fix i
  assume i: "i \<in> set (invitations db)"
  from assms have "statuses_ok db" by (rule reachable_statuses_ok)
  with i have s: "stored_status (inv_Status i)" by (simp add: statuses_ok_def list_all_iff)
  then show "inv_Status i = StatusPending \<or> inv_Status i = StatusAccepted \<or> inv_Status i = StatusDeclined"
    by (simp add: stored_status_def)
  from s show "inv_Status i \<noteq> ''cancelled''"
    by (auto simp: stored_status_def StatusPending_def StatusAccepted_def StatusDeclined_def)
  from s show "inv_Status i \<noteq> StatusExpired"
    by (auto simp: stored_status_def StatusPending_def StatusAccepted_def StatusDeclined_def
          StatusExpired_def)
next
  fix uuid_Parse now c team invitation resp db'
  assume "DeleteCancelInvitation uuid_Parse now db c team invitation = (Inr resp, db')"
  then show "\<exists>a. uuid_Parse invitation = Some a
               \<and> invitations db' =
                   map (\<lambda>i. if live_inv i \<and> inv_ID i = a then i\<lparr>inv_DeletedAt := Some now\<rparr> else i)
                     (invitations db)
               \<and> (\<exists>i \<in> set (invitations db). live_inv i \<and> inv_ID i = a \<and> inv_Status i = StatusPending)"
    by (rule DeleteCancelInvitation_soft)
qed

text \<open>
  Witness for C9: the storage after the owner of team 7 has invited a@x.com is
  reachable; its one invitation is pending, and cancelling it soft-deletes the row and
  leaves the status pending.
\<close>

theorem stored_statuses_invariant_witness:
  "reachable (snd (PostInviteMember ex_uuid_Parse 0 1 (Some ''K'') ex_db_before
                     (Some (CtxUser (Some ex_inviter))) ''7'' ''a@x.com'' RoleMember))
   \<and> map inv_Status (invitations (snd (PostInviteMember ex_uuid_Parse 0 1 (Some ''K'') ex_db_before
                     (Some (CtxUser (Some ex_inviter))) ''7'' ''a@x.com'' RoleMember))) = [StatusPending]
   \<and> StatusPending \<noteq> ''cancelled'' \<and> StatusPending \<noteq> StatusExpired
   \<and> map inv_Status (invitations (snd (DeleteCancelInvitation ex_uuid_Parse 5
         (snd (PostInviteMember ex_uuid_Parse 0 1 (Some ''K'') ex_db_before
                     (Some (CtxUser (Some ex_inviter))) ''7'' ''a@x.com'' RoleMember))
         (Some (CtxUser (Some ex_inviter))) ''7'' ''1''))) = [StatusPending]
   \<and> map inv_DeletedAt (invitations (snd (DeleteCancelInvitation ex_uuid_Parse 5
         (snd (PostInviteMember ex_uuid_Parse 0 1 (Some ''K'') ex_db_before
                     (Some (CtxUser (Some ex_inviter))) ''7'' ''a@x.com'' RoleMember))
         (Some (CtxUser (Some ex_inviter))) ''7'' ''1''))) = [Some 5]"
proof -
  let ?D = "snd (PostInviteMember ex_uuid_Parse 0 1 (Some ''K'') ex_db_before
                     (Some (CtxUser (Some ex_inviter))) ''7'' ''a@x.com'' RoleMember)"
  have "reachable ex_db_before"
    by (rule reach_other[OF reach_init]) (simp add: ex_db_before_def)
  then have r: "reachable ?D"
    by (rule reach_invite[where r = "fst (PostInviteMember ex_uuid_Parse 0 1 (Some ''K'') ex_db_before
                     (Some (CtxUser (Some ex_inviter))) ''7'' ''a@x.com'' RoleMember)"]) simp
  note t = stored_statuses_invariant[OF r]
  have e: "map inv_Status (invitations ?D) = [StatusPending]" by code_simp
  then obtain x where x: "invitations ?D = [x]" "inv_Status x = StatusPending" by auto
  from t x have n: "StatusPending \<noteq> ''cancelled'' \<and> StatusPending \<noteq> StatusExpired" by auto
  have c: "map inv_Status (invitations (snd (DeleteCancelInvitation ex_uuid_Parse 5 ?D
         (Some (CtxUser (Some ex_inviter))) ''7'' ''1''))) = [StatusPending]"
    by code_simp
  have d: "map inv_DeletedAt (invitations (snd (DeleteCancelInvitation ex_uuid_Parse 5 ?D
         (Some (CtxUser (Some ex_inviter))) ''7'' ''1''))) = [Some 5]"
    by code_simp
  from r e n c d show ?thesis by simp
qed


section \<open>The webhook processor\<close>

text \<open>
  Claim C5.  When the signature check fails, \<open>PostStripeWebhook\<close> answers 400 and
  returns the storage exactly as it received it, statement counter included: the run
  issues no statement, read or write.  Whenever a run touches the storage at all, the
  signature check against the configured secret has succeeded before.
\<close>

theorem signature_checked_before_storage:
  "(req_Body req = Some payload \<and> req_StripeSignature req \<noteq> [] \<and> cfg_WebhookSecret cfg \<noteq> []
      \<and> lib_ConstructEvent lib payload (req_StripeSignature req) (cfg_WebhookSecret cfg) = Inl msg \<longrightarrow>
        PostStripeWebhook cfg lib newID req db
          = (Return (Inl (HTTPError 400 (''Webhook signature verification failed: '' @ msg))), db))
   \<and> (snd (PostStripeWebhook cfg lib newID req db) \<noteq> db \<longrightarrow>
        (\<exists>body event. req_Body req = Some body
           \<and> lib_ConstructEvent lib body (req_StripeSignature req) (cfg_WebhookSecret cfg) = Inr event))"
  by (auto simp: PostStripeWebhook_def split: option.splits sum.splits if_splits)

text \<open>
  Witness for C5: a request with a wrong signature is answered 400 and the storage is
  returned as it was; a run that issued a statement had a signature that verified.
\<close>

theorem signature_checked_before_storage_witness:
  "PostStripeWebhook ex_cfg ex_lib 12 (ex_request ''invoice.paid'' ''v1=bad'') ex_db_billing
     = (Return (Inl (HTTPError 400 (''Webhook signature verification failed: '' @ ''signature mismatch''))),
        ex_db_billing)
   \<and> stmts (snd (PostStripeWebhook ex_cfg ex_lib 12
               (ex_request ''customer.subscription.updated'' ''v1=whsec'') ex_db_billing)) = 1
   \<and> lib_ConstructEvent ex_lib ''customer.subscription.updated'' ''v1=whsec'' ''whsec''
        = Inr \<lparr>ev_Type = ''customer.subscription.updated'', ev_ID = ''evt_1'', ev_Data_Raw = []\<rparr>"
proof -
  have h: "req_Body (ex_request ''invoice.paid'' ''v1=bad'') = Some ''invoice.paid''
      \<and> req_StripeSignature (ex_request ''invoice.paid'' ''v1=bad'') \<noteq> []
      \<and> cfg_WebhookSecret ex_cfg \<noteq> []
      \<and> lib_ConstructEvent ex_lib ''invoice.paid''
            (req_StripeSignature (ex_request ''invoice.paid'' ''v1=bad'')) (cfg_WebhookSecret ex_cfg)
          = Inl ''signature mismatch''"
    by code_simp
  have p1: "PostStripeWebhook ex_cfg ex_lib 12 (ex_request ''invoice.paid'' ''v1=bad'') ex_db_billing
     = (Return (Inl (HTTPError 400 (''Webhook signature verification failed: '' @ ''signature mismatch''))),
        ex_db_billing)"
    using signature_checked_before_storage[of "ex_request ''invoice.paid'' ''v1=bad''" "''invoice.paid''"
            ex_cfg ex_lib "''signature mismatch''" 12 ex_db_billing] h
    by blast
  have s: "stmts (snd (PostStripeWebhook ex_cfg ex_lib 12
               (ex_request ''customer.subscription.updated'' ''v1=whsec'') ex_db_billing)) = 1"
    by code_simp
  have "stmts ex_db_billing = 0" by code_simp
  with s have n: "snd (PostStripeWebhook ex_cfg ex_lib 12
               (ex_request ''customer.subscription.updated'' ''v1=whsec'') ex_db_billing) \<noteq> ex_db_billing"
    by auto
  have "\<exists>body event. req_Body (ex_request ''customer.subscription.updated'' ''v1=whsec'') = Some body
           \<and> lib_ConstructEvent ex_lib body
                (req_StripeSignature (ex_request ''customer.subscription.updated'' ''v1=whsec''))
                (cfg_WebhookSecret ex_cfg) = Inr event"
    using signature_checked_before_storage[of "ex_request ''customer.subscription.updated'' ''v1=whsec''"
            "''x''" ex_cfg ex_lib "''y''" 12 ex_db_billing] n
    by blast
  then have p2: "lib_ConstructEvent ex_lib ''customer.subscription.updated'' ''v1=whsec'' ''whsec''
        = Inr \<lparr>ev_Type = ''customer.subscription.updated'', ev_ID = ''evt_1'', ev_Data_Raw = []\<rparr>"
    by (simp add: ex_request_def ex_cfg_def ex_lib_def)
  from p1 s p2 show ?thesis by blast
qed

lemma handleSubscriptionUpdated_unknown:
  assumes "\<forall>s \<in> set (subscriptions db). sub_StripeSubscriptionID s \<noteq> ssub_ID sub"
  shows "handleSubscriptionUpdated sub db = (Return None, tick db)"
proof -
  have "First sub_ID (\<lambda>s. sub_StripeSubscriptionID s = ssub_ID sub) (subscriptions db) = None"
    using assms by (simp only: First_None_iff) 
  then show ?thesis by (simp add: handleSubscriptionUpdated_def Transaction_def)
qed

text \<open>
  Claim C6.  A verified subscription-updated event whose external subscription id
  matches no Subscription row is answered with the success response, and the storage
  after the run is the storage before it with one statement (the lookup) counted: no
  row of any table is created, updated or deleted.
\<close>

theorem unknown_subscription_update_is_noop:
  assumes "req_Body req = Some payload" "req_StripeSignature req \<noteq> []"
    and "cfg_WebhookSecret cfg \<noteq> []" "cfg_SecretKey cfg \<noteq> []"
    and "lib_ConstructEvent lib payload (req_StripeSignature req) (cfg_WebhookSecret cfg) = Inr event"
    and "ev_Type event = ''customer.subscription.updated''"
    and "lib_UnmarshalSubscription lib (ev_Data_Raw event) = Some sub"
    and "\<forall>s \<in> set (subscriptions db). sub_StripeSubscriptionID s \<noteq> ssub_ID sub"
  shows "PostStripeWebhook cfg lib newID req db
           = (Return (Inr \<lparr>r_Success = True, r_Message = ''Webhook received successfully''\<rparr>),
              db\<lparr>stmts := Suc (stmts db)\<rparr>)"
proof -
  have "handleEvent lib newID event db = (Return None, tick db)"
    using assms(6,7) handleSubscriptionUpdated_unknown[OF assms(8)]
    by (simp add: handleEvent_def)
  then show ?thesis using assms(1-5) by (simp add: PostStripeWebhook_def tick_def)
qed

text \<open>
  Witness for C6: the sample event is for "sub_9"; the storage holds a row for "sub_1"
  only.
\<close>

theorem unknown_subscription_update_witness:
  "PostStripeWebhook ex_cfg ex_lib 12 (ex_request ''customer.subscription.updated'' ''v1=whsec'')
     ex_db_billing
     = (Return (Inr \<lparr>r_Success = True, r_Message = ''Webhook received successfully''\<rparr>),
        ex_db_billing\<lparr>stmts := Suc (stmts ex_db_billing)\<rparr>)"
proof -
  have h1: "req_Body (ex_request ''customer.subscription.updated'' ''v1=whsec'')
              = Some ''customer.subscription.updated''" by code_simp
  have h2: "req_StripeSignature (ex_request ''customer.subscription.updated'' ''v1=whsec'') \<noteq> []"
    by code_simp
  have h3: "cfg_WebhookSecret ex_cfg \<noteq> []" by code_simp
  have h4: "cfg_SecretKey ex_cfg \<noteq> []" by code_simp
  have h5: "lib_ConstructEvent ex_lib ''customer.subscription.updated''
              (req_StripeSignature (ex_request ''customer.subscription.updated'' ''v1=whsec''))
              (cfg_WebhookSecret ex_cfg)
            = Inr \<lparr>ev_Type = ''customer.subscription.updated'', ev_ID = ''evt_1'', ev_Data_Raw = []\<rparr>"
    by code_simp
  have h6: "ev_Type \<lparr>ev_Type = ''customer.subscription.updated'', ev_ID = ''evt_1'', ev_Data_Raw = []\<rparr>
              = ''customer.subscription.updated''" by simp
  have h7: "lib_UnmarshalSubscription ex_lib
              (ev_Data_Raw \<lparr>ev_Type = ''customer.subscription.updated'', ev_ID = ''evt_1'',
                 ev_Data_Raw = []\<rparr>) = Some ex_unknown_sub"
    by code_simp
  have h8: "\<forall>s \<in> set (subscriptions ex_db_billing). sub_StripeSubscriptionID s \<noteq> ssub_ID ex_unknown_sub"
    by code_simp
  show ?thesis by (rule unknown_subscription_update_is_noop[OF h1 h2 h3 h4 h5 h6 h7 h8])
qed


section \<open>Events with a missing object\<close>

lemma checkout_missing_ids_rejected:
  assumes "cs_Customer session = Some customer" "cs_Subscription session = Some subscription"
    and "cs_ClientReferenceID session = [] \<or> cust_ID customer = [] \<or> ssub_ID subscription = []"
  shows "handleCheckoutSessionCompleted lib newID session db
           = (Return (Some (HTTPError 400 ''Webhook payload missing required IDs'')), db)"
  using assms by (auto simp: handleCheckoutSessionCompleted_def)

text \<open>
  Claim C7 fails on the code where the object is absent.  A checkout session whose
  customer is nil, or whose customer is present and whose subscription is nil, makes
  \<open>handleCheckoutSessionCompleted\<close> panic in its first statement; it returns no
  bad-request error.  (With both objects present and one of the three ids empty, the
  handler does return 400 and leaves the storage alone: \<open>checkout_missing_ids_rejected\<close>.)
\<close>

theorem checkout_nil_object_panics:
  "handleCheckoutSessionCompleted lib newID (session\<lparr>cs_Customer := None\<rparr>) db = (Panic, db)
   \<and> handleCheckoutSessionCompleted lib newID
        (session\<lparr>cs_Customer := Some customer, cs_Subscription := None\<rparr>) db = (Panic, db)
   \<and> fst (PostStripeWebhook ex_cfg ex_lib_nil_customer
             12 (ex_request ''checkout.session.completed'' ''v1=whsec'') ex_db_billing) = Panic"
proof -
  have a: "handleCheckoutSessionCompleted lib newID (session\<lparr>cs_Customer := None\<rparr>) db = (Panic, db)"
    by (simp add: handleCheckoutSessionCompleted_def)
  have b: "handleCheckoutSessionCompleted lib newID
        (session\<lparr>cs_Customer := Some customer, cs_Subscription := None\<rparr>) db = (Panic, db)"
    by (simp add: handleCheckoutSessionCompleted_def)
  have c: "fst (PostStripeWebhook ex_cfg ex_lib_nil_customer
             12 (ex_request ''checkout.session.completed'' ''v1=whsec'') ex_db_billing) = Panic"
    by code_simp
  from a b c show ?thesis by blast
qed

lemma invoice_paid_linked:
  assumes "invoice_Subscription invoice = Some subscription"
  shows "(invoice_Status invoice \<noteq> InvoiceStatusPaid \<or> ssub_ID subscription = [] \<longrightarrow>
            handleInvoicePaid invoice db = (Return None, db))
       \<and> (invoice_Status invoice = InvoiceStatusPaid \<and> ssub_ID subscription \<noteq> [] \<longrightarrow>
            handleInvoicePaid invoice db
              = (Return None,
                 tick (db\<lparr>subscriptions :=
                   map (\<lambda>r. if sub_StripeSubscriptionID r = ssub_ID subscription
                             then r\<lparr>sub_Status := SubscriptionStatusActive\<rparr> else r)
                     (subscriptions db)\<rparr>)))"
  using assms
  by (simp add: handleInvoicePaid_def Transaction_def Update_Subscription_status_def UpdateWhere_def)

text \<open>
  Claim C8 fails on the code for an invoice that is not linked to a subscription: with
  \<open>invoice.Subscription\<close> nil, \<open>handleInvoicePaid\<close> panics in its first statement; it
  is no no-op success.  (For an invoice whose subscription object is present the
  handler does what the claim says, zero rows affected included: \<open>invoice_paid_linked\<close>.)
\<close>

theorem invoice_nil_subscription_panics:
  "handleInvoicePaid (invoice\<lparr>invoice_Subscription := None\<rparr>) db = (Panic, db)
   \<and> fst (PostStripeWebhook ex_cfg ex_lib 12 (ex_request ''invoice.paid'' ''v1=whsec'') ex_db_billing)
       = Panic
   \<and> invoice_Status ex_invoice = InvoiceStatusPaid \<and> invoice_Subscription ex_invoice = None"
proof -
  have a: "handleInvoicePaid (invoice\<lparr>invoice_Subscription := None\<rparr>) db = (Panic, db)"
    by (simp add: handleInvoicePaid_def)
  have b: "fst (PostStripeWebhook ex_cfg ex_lib 12 (ex_request ''invoice.paid'' ''v1=whsec'') ex_db_billing)
       = Panic \<and> invoice_Status ex_invoice = InvoiceStatusPaid \<and> invoice_Subscription ex_invoice = None"
    by code_simp
  from a b show ?thesis by blast
qed

text \<open>
  The sample invoice is paid and has no subscription: the handler panics on it.
\<close>

theorem invoice_nil_subscription_panics_witness:
  "handleInvoicePaid ex_invoice ex_db_billing = (Panic, ex_db_billing)"
proof -
  have e: "ex_invoice\<lparr>invoice_Subscription := None\<rparr> = ex_invoice"
    by (simp add: ex_invoice_def)
  from invoice_nil_subscription_panics[of ex_invoice ex_db_billing]
  have "handleInvoicePaid (ex_invoice\<lparr>invoice_Subscription := None\<rparr>) ex_db_billing
          = (Panic, ex_db_billing)"
    by (rule conjunct1)
  then show ?thesis by (simp only: e)
qed

section \<open>Redelivery of a checkout-completed event\<close>

lemma checkout_twice_fresh:
  "fst (PostStripeWebhook ex_cfg ex_lib 12 (ex_request ''checkout.session.completed'' ''v1=whsec'')
          ex_db_unsubscribed)
     = Return (Inr \<lparr>r_Success = True, r_Message = ''Webhook received successfully''\<rparr>)
   \<and> subscriptions (snd (PostStripeWebhook ex_cfg ex_lib 13
        (ex_request ''checkout.session.completed'' ''v1=whsec'')
        (snd (PostStripeWebhook ex_cfg ex_lib 12 (ex_request ''checkout.session.completed'' ''v1=whsec'')
           ex_db_unsubscribed))))
     = [\<lparr>sub_ID = 12, sub_UserID = 3, sub_PlanID = ''pro'', sub_StripeSubscriptionID = ''sub_1'',
         sub_Status = ''active'', sub_CurrentPeriodStart = time_Unix 1000,
         sub_CurrentPeriodEnd = time_Unix 2000, sub_CancelAtPeriodEnd = False\<rparr>]"
  by code_simp

text \<open>
  Claim C4 fails on the code for the cancel-at-period-end flag.  The storage holds the
  row of "sub_1" with the flag set; the event's provider detail has the flag cleared.
  Both deliveries succeed and leave one row for "sub_1", but its flag is still set:
  the upsert assigns from a struct, and a \<open>false\<close> field of a struct is not
  assigned.  (Starting without a row, two deliveries leave one row with the fields of
  the delivery: \<open>checkout_twice_fresh\<close>.)
\<close>

theorem checkout_redelivery_keeps_stale_flag:
  "fst (PostStripeWebhook ex_cfg ex_lib 12 (ex_request ''checkout.session.completed'' ''v1=whsec'')
          ex_db_billing)
     = Return (Inr \<lparr>r_Success = True, r_Message = ''Webhook received successfully''\<rparr>)
   \<and> fst (PostStripeWebhook ex_cfg ex_lib 13 (ex_request ''checkout.session.completed'' ''v1=whsec'')
        (snd (PostStripeWebhook ex_cfg ex_lib 12 (ex_request ''checkout.session.completed'' ''v1=whsec'')
           ex_db_billing)))
     = Return (Inr \<lparr>r_Success = True, r_Message = ''Webhook received successfully''\<rparr>)
   \<and> subscriptions (snd (PostStripeWebhook ex_cfg ex_lib 13
        (ex_request ''checkout.session.completed'' ''v1=whsec'')
        (snd (PostStripeWebhook ex_cfg ex_lib 12 (ex_request ''checkout.session.completed'' ''v1=whsec'')
           ex_db_billing))))
     = [\<lparr>sub_ID = 11, sub_UserID = 3, sub_PlanID = ''pro'', sub_StripeSubscriptionID = ''sub_1'',
         sub_Status = ''active'', sub_CurrentPeriodStart = time_Unix 1000,
         sub_CurrentPeriodEnd = time_Unix 2000, sub_CancelAtPeriodEnd = True\<rparr>]
   \<and> ssub_CancelAtPeriodEnd ex_detail = False"
  by code_simp


end
